theory Spec2Isabelle
  imports Complex_Main "HOL-Library.Word"
begin

unbundle bit_operations_syntax

section \<open>Unicorecomm receiver decoder (src/rcv/unicorecomm.c)\<close>

text \<open>
  A shallow embedding of the Unicore binary message decoder of RTKLIB.
  Conventions of the embedding:
  \<^item> C \<open>unsigned char\<close>, \<open>unsigned short\<close>, \<open>unsigned int\<close> are \<open>8 word\<close>, \<open>16 word\<close>,
    \<open>32 word\<close>; a C \<open>int\<close> whose value provably stays small is an \<open>int\<close>, one that
    can wrap (the record count \<open>nobs\<close>) is a \<open>32 word\<close> read with \<open>sint\<close>;
  \<^item> C \<open>double\<close> and \<open>float\<close> values are idealised as \<open>real\<close>: arithmetic is exact, the
    reinterpretation of a bit pattern as a floating-point number and the rounding to
    single precision are parameters of the environment; infinities and NaN have no
    counterpart, and a division by zero yields 0;
  \<^item> fixed-size C arrays are total functions from the C index (\<open>int\<close>) to the element, so
    that an access outside the array is not an error of the model;
  \<^item> everything declared in rtklib.h or defined in rtkcmn.c (not part of the file) is a
    field of the environment record \<open>env\<close> that every function takes as its first argument;
  \<^item> \<open>trace\<close> calls (logging only) are dropped.
\<close>

type_synonym u8 = "8 word"
type_synonym u16 = "16 word"
type_synonym u32 = "32 word"
type_synonym u64 = "64 word"

subsection \<open>Data model (the parts of rtklib.h the decoder touches)\<close>

datatype satsys = SYS_GPS | SYS_GLO | SYS_SBS | SYS_GAL | SYS_CMP | SYS_QZS

datatype obscode =
    CODE_NONE | CODE_L1C | CODE_L1P | CODE_L1B | CODE_L1I | CODE_L2C | CODE_L2W
  | CODE_L2X | CODE_L5I | CODE_L7I | CODE_L7Q | CODE_L8Q

record gtime =
  time :: int
  sec :: real

record obsd =
  obsd_time :: gtime
  obsd_sat :: int
  obsd_SNR :: "int \<Rightarrow> u8"
  obsd_LLI :: "int \<Rightarrow> u8"
  obsd_code :: "int \<Rightarrow> obscode"
  obsd_L :: "int \<Rightarrow> real"
  obsd_P :: "int \<Rightarrow> real"
  obsd_D :: "int \<Rightarrow> real"

record obs =
  obs_n :: int
  obs_data :: "int \<Rightarrow> obsd"

record eph =
  eph_sat :: int
  eph_iode :: int
  eph_iodc :: int
  eph_sva :: int
  eph_svh :: int
  eph_week :: int
  eph_code :: int
  eph_toe :: gtime
  eph_toc :: gtime
  eph_ttr :: gtime
  eph_A :: real
  eph_e :: real
  eph_i0 :: real
  eph_OMG0 :: real
  eph_omg :: real
  eph_M0 :: real
  eph_deln :: real
  eph_OMGd :: real
  eph_idot :: real
  eph_crc :: real
  eph_crs :: real
  eph_cuc :: real
  eph_cus :: real
  eph_cic :: real
  eph_cis :: real
  eph_toes :: real
  eph_f0 :: real
  eph_f1 :: real
  eph_f2 :: real
  eph_tgd :: "int \<Rightarrow> real"

record geph =
  geph_sat :: int
  geph_iode :: int
  geph_frq :: int
  geph_svh :: int
  geph_age :: int
  geph_toe :: gtime
  geph_tof :: gtime
  geph_pos :: "int \<Rightarrow> real"
  geph_vel :: "int \<Rightarrow> real"
  geph_acc :: "int \<Rightarrow> real"
  geph_taun :: real
  geph_gamn :: real

record nav =
  nav_eph :: "int \<Rightarrow> eph"
  nav_geph :: "int \<Rightarrow> geph"

record raw =
  raw_time :: gtime
  raw_tobs :: "int \<Rightarrow> int \<Rightarrow> gtime"
  raw_obs :: obs
  raw_nav :: nav
  raw_ephsat :: int
  raw_msgtype :: string
  raw_lockt :: "int \<Rightarrow> int \<Rightarrow> real"
  raw_halfc :: "int \<Rightarrow> int \<Rightarrow> u8"
  raw_nbyte :: int
  raw_len :: int
  raw_outtype :: int
  raw_buff :: "int \<Rightarrow> u8"
  raw_opt :: string

text \<open>
  The environment: constants, tables and functions of RTKLIB that the decoder uses and
  that are defined outside unicorecomm.c, the platform's floating-point representation
  and the C library's number formatting.
\<close>

record env =
  NFREQ :: int
  NEXOBS :: int
  MAXOBS :: int
  MAXRAWLEN :: int
  LLI_SLIP :: u32
  LLI_HALFC :: u32
  LLI_HALFA :: u32
  CLIGHT :: real
  FREQ1_GLO :: real
  FREQ2_GLO :: real
  lam_carr :: "int \<Rightarrow> real"
  satno :: "satsys \<Rightarrow> int \<Rightarrow> int"
  satwavelen :: "int \<Rightarrow> int \<Rightarrow> nav \<Rightarrow> real"
  timediff :: "gtime \<Rightarrow> gtime \<Rightarrow> real"
  gpst2time :: "int \<Rightarrow> real \<Rightarrow> gtime"
  time2gpst :: "gtime \<Rightarrow> real \<times> int"
  bdt2time :: "int \<Rightarrow> real \<Rightarrow> gtime"
  bdt2gpst :: "gtime \<Rightarrow> gtime"
  adjgpsweek :: "int \<Rightarrow> int"
  uraindex :: "real \<Rightarrow> int"
  rtk_crc32 :: "(int \<Rightarrow> u8) \<Rightarrow> int \<Rightarrow> u32"
  time_str :: "gtime \<Rightarrow> int \<Rightarrow> string"
  float_of_bits :: "u32 \<Rightarrow> real"
  double_of_bits :: "u64 \<Rightarrow> real"
  to_float :: "real \<Rightarrow> real"
  fmt_d :: "nat \<Rightarrow> int \<Rightarrow> string"
  fmt_f0 :: "nat \<Rightarrow> real \<Rightarrow> string"

subsection \<open>Field readers (little-endian)\<close>

definition U1 :: "(int \<Rightarrow> u8) \<Rightarrow> int \<Rightarrow> u8" where
  "U1 b p = b p"

definition U2 :: "(int \<Rightarrow> u8) \<Rightarrow> int \<Rightarrow> u16" where
  "U2 b p = ucast (b p) OR push_bit 8 (ucast (b (p + 1)))"

definition U4 :: "(int \<Rightarrow> u8) \<Rightarrow> int \<Rightarrow> u32" where
  "U4 b p = ucast (b p) OR push_bit 8 (ucast (b (p + 1)))
     OR push_bit 16 (ucast (b (p + 2))) OR push_bit 24 (ucast (b (p + 3)))"

definition I4 :: "(int \<Rightarrow> u8) \<Rightarrow> int \<Rightarrow> int" where
  "I4 b p = sint (U4 b p)"

definition U8 :: "(int \<Rightarrow> u8) \<Rightarrow> int \<Rightarrow> u64" where
  "U8 b p = ucast (U4 b p) OR push_bit 32 (ucast (U4 b (p + 4)))"

definition R4 :: "env \<Rightarrow> (int \<Rightarrow> u8) \<Rightarrow> int \<Rightarrow> real" where
  "R4 env b p = float_of_bits env (U4 b p)"

definition R8 :: "env \<Rightarrow> (int \<Rightarrow> u8) \<Rightarrow> int \<Rightarrow> real" where
  "R8 env b p = double_of_bits env (U8 b p)"

text \<open>\<open>exsign\<close>: sign extension of the low \<open>bits\<close> bits, read back as a C int.\<close>

definition exsign :: "u32 \<Rightarrow> nat \<Rightarrow> int" where
  "exsign v bits =
     sint (if v AND push_bit (bits - 1) 1 \<noteq> 0 then v OR push_bit bits (- 1) else v)"

text \<open>
  A conversion \<open>(unsigned char) x\<close> of a double: the fraction is discarded (towards zero).
  C leaves the result undefined when the integral part is outside 0..255; the model
  keeps the low eight bits, which is what the conversion through a wider integer register
  yields on the usual targets.
\<close>

definition c_trunc :: "real \<Rightarrow> int" where
  "c_trunc x = (if 0 \<le> x then \<lfloor>x\<rfloor> else \<lceil>x\<rceil>)"

definition uchar_of_double :: "real \<Rightarrow> u8" where
  "uchar_of_double x = word_of_int (c_trunc x)"

text \<open>\<open>strstr(s, t) != NULL\<close>: \<open>t\<close> occurs in \<open>s\<close>.\<close>

fun is_prefix :: "string \<Rightarrow> string \<Rightarrow> bool" where
  "is_prefix [] s = True"
| "is_prefix (c # t) [] = False"
| "is_prefix (c # t) (d # s) = (c = d \<and> is_prefix t s)"

fun strstr :: "string \<Rightarrow> string \<Rightarrow> bool" where
  "strstr [] t = (t = [])"
| "strstr (c # s) t = (is_prefix t (c # s) \<or> strstr s t)"

subsection \<open>\<open>adjweek\<close> and \<open>obsindex\<close>\<close>

definition adjweek :: "env \<Rightarrow> gtime \<Rightarrow> real \<Rightarrow> gtime" where
  "adjweek env t tow =
     (let (tow_p, week) = time2gpst env t;
          tow1 = (if tow < tow_p - 302400 then tow + 604800
                  else if tow > tow_p + 302400 then tow - 604800 else tow)
      in gpst2time env week tow1)"

definition new_obsd :: "env \<Rightarrow> obsd \<Rightarrow> gtime \<Rightarrow> int \<Rightarrow> obsd" where
  "new_obsd env d t sat =
     (let inr = (\<lambda>j. 0 \<le> j \<and> j < NFREQ env + NEXOBS env) in
      d\<lparr>obsd_time := t, obsd_sat := sat,
        obsd_L := (\<lambda>j. if inr j then 0 else obsd_L d j),
        obsd_P := (\<lambda>j. if inr j then 0 else obsd_P d j),
        obsd_D := (\<lambda>j. if inr j then 0 else obsd_D d j),
        obsd_SNR := (\<lambda>j. if inr j then 0 else obsd_SNR d j),
        obsd_LLI := (\<lambda>j. if inr j then 0 else obsd_LLI d j),
        obsd_code := (\<lambda>j. if inr j then CODE_NONE else obsd_code d j)\<rparr>)"

text \<open>\<open>obsindex\<close> returns the index (\<open>-1\<close>: buffer full) and the updated buffer.\<close>

definition obsindex :: "env \<Rightarrow> obs \<Rightarrow> gtime \<Rightarrow> int \<Rightarrow> int \<times> obs" where
  "obsindex env ob t sat =
     (if obs_n ob \<ge> MAXOBS env then (- 1, ob)
      else case List.find (\<lambda>i. obsd_sat (obs_data ob i) = sat) [0 .. obs_n ob - 1] of
             Some i \<Rightarrow> (i, ob)
           | None \<Rightarrow>
               (let i = max 0 (obs_n ob) in
                (i, ob\<lparr>obs_data := (obs_data ob)(i := new_obsd env (obs_data ob i) t sat),
                       obs_n := obs_n ob + 1\<rparr>)))"

subsection \<open>Tracking status and signal slot\<close>

record trackstat =
  ts_freq :: int
  ts_sys :: satsys
  ts_code :: obscode
  ts_track :: u32
  ts_plock :: u32
  ts_clock :: u32
  ts_parity :: u32
  ts_halfc :: u32

text \<open>The first \<open>switch\<close> of \<open>decode_trackstat\<close>: the system of the 3-bit field.\<close>

definition satsys_of :: "u32 \<Rightarrow> satsys option" where
  "satsys_of satsys =
     (if satsys = 0 then Some SYS_GPS
      else if satsys = 1 then Some SYS_GLO
      else if satsys = 2 then Some SYS_SBS
      else if satsys = 3 then Some SYS_GAL
      else if satsys = 4 then Some SYS_CMP
      else if satsys = 5 then Some SYS_QZS
      else None)"

text \<open>The per-system \<open>switch (sigtype)\<close>: \<open>None\<close> is \<open>freq = -1\<close>.\<close>

fun sigtype_of :: "satsys \<Rightarrow> u32 \<Rightarrow> (int \<times> obscode) option" where
  "sigtype_of SYS_GPS sigtype =
     (if sigtype = 0 then Some (0, CODE_L1C)
      else if sigtype = 9 then Some (1, CODE_L2W) else None)"
| "sigtype_of SYS_QZS sigtype =
     (if sigtype = 0 then Some (0, CODE_L1C)
      else if sigtype = 9 then Some (1, CODE_L2C) else None)"
| "sigtype_of SYS_GLO sigtype =
     (if sigtype = 0 then Some (0, CODE_L1C)
      else if sigtype = 5 then Some (1, CODE_L2C) else None)"
| "sigtype_of SYS_GAL sigtype =
     (if sigtype = 1 then Some (0, CODE_L1B)
      else if sigtype = 2 then Some (0, CODE_L1C)
      else if sigtype = 17 then Some (1, CODE_L7Q) else None)"
| "sigtype_of SYS_CMP sigtype =
     (if sigtype = 0 then Some (0, CODE_L1I)
      else if sigtype = 17 then Some (1, CODE_L7I) else None)"
| "sigtype_of SYS_SBS sigtype =
     (if sigtype = 0 then Some (0, CODE_L1C)
      else if sigtype = 6 then Some (2, CODE_L5I) else None)"

text \<open>\<open>decode_trackstat\<close>: \<open>None\<close> is the return value \<open>-1\<close>.\<close>

definition decode_trackstat :: "u32 \<Rightarrow> trackstat option" where
  "decode_trackstat stat =
     (let track = stat AND 0x1F;
          plock = drop_bit 10 stat AND 1;
          parity = drop_bit 11 stat AND 1;
          clock = drop_bit 12 stat AND 1;
          satsys = drop_bit 16 stat AND 7;
          halfc = drop_bit 28 stat AND 1;
          sigtype = drop_bit 21 stat AND 0x1F
      in case satsys_of satsys of
           None \<Rightarrow> None
         | Some sys \<Rightarrow>
             (case sigtype_of sys sigtype of
                None \<Rightarrow> None
              | Some (freq, code) \<Rightarrow>
                  Some \<lparr>ts_freq = freq, ts_sys = sys, ts_code = code, ts_track = track,
                        ts_plock = plock, ts_clock = clock, ts_parity = parity,
                        ts_halfc = halfc\<rparr>))"

definition checkpri :: "env \<Rightarrow> string \<Rightarrow> satsys \<Rightarrow> obscode \<Rightarrow> int \<Rightarrow> int" where
  "checkpri env opt sys code freq =
     (let nex = NEXOBS env;
          dflt = (if freq < NFREQ env then freq else - 1)
      in if sys = SYS_GPS then
           (if strstr opt ''-GL1P'' \<and> freq = 0 then (if code = CODE_L1P then 0 else - 1)
            else if strstr opt ''-GL2X'' \<and> freq = 1 then (if code = CODE_L2X then 1 else - 1)
            else if code = CODE_L1P then (if nex < 1 then - 1 else NFREQ env)
            else if code = CODE_L2X then (if nex < 2 then - 1 else NFREQ env + 1)
            else dflt)
         else if sys = SYS_GLO then
           (if strstr opt ''-RL2C'' \<and> freq = 1 then (if code = CODE_L2C then 1 else - 1)
            else if code = CODE_L2C then (if nex < 1 then - 1 else NFREQ env)
            else dflt)
         else if sys = SYS_GAL then
           (if strstr opt ''-EL1B'' \<and> freq = 0 then (if code = CODE_L1B then 0 else - 1)
            else if code = CODE_L1B then (if nex < 1 then - 1 else NFREQ env)
            else if code = CODE_L8Q then (if nex < 3 then - 1 else NFREQ env + 2)
            else dflt)
         else dflt)"

subsection \<open>The observation record: shared steps of \<open>decode_rangeb\<close> and \<open>decode_rangecmpb\<close>\<close>

text \<open>
  Both loops start with the same four checks, each ending in \<open>continue\<close> (lines 214-227
  and 295-308): tracking status, slot, satellite number, GLONASS parity. \<open>accept_rec\<close>
  takes the status word and the PRN field of the record and returns \<open>None\<close> for a skipped
  record, otherwise the tracking status, the slot \<open>pos\<close>, \<open>prn\<close> and \<open>sat\<close>.
\<close>

definition accept_rec ::
  "env \<Rightarrow> string \<Rightarrow> u32 \<Rightarrow> int \<Rightarrow> (trackstat \<times> int \<times> int \<times> int) option" where
  "accept_rec env opt stat prn0 =
     (case decode_trackstat stat of
        None \<Rightarrow> None
      | Some ts \<Rightarrow>
          (let pos = checkpri env opt (ts_sys ts) (ts_code ts) (ts_freq ts) in
           if pos < 0 then None
           else
             (let prn = (if ts_sys ts = SYS_GLO then prn0 - 37 else prn0);
                  sat = satno env (ts_sys ts) prn
              in if sat = 0 then None
                 else if ts_sys ts = SYS_GLO \<and> ts_parity ts = 0 then None
                 else Some (ts, pos, prn, sat))))"

text \<open>
  Lines 240-246 and 323-329: the slip flag from the lock time. \<open>guard\<close> is \<open>True\<close> in
  \<open>decode_rangeb\<close> and \<open>lockt < 65535.968\<close> in \<open>decode_rangecmpb\<close>.
\<close>

definition slip_lli :: "env \<Rightarrow> raw \<Rightarrow> int \<Rightarrow> int \<Rightarrow> bool \<Rightarrow> real \<Rightarrow> u32" where
  "slip_lli env raw sat pos guard lockt =
     (if time (raw_tobs raw (sat - 1) pos) \<noteq> 0 then
        (let tt = timediff env (raw_time raw) (raw_tobs raw (sat - 1) pos) in
         if guard \<and> lockt - raw_lockt raw (sat - 1) pos + 0.05 \<le> tt
         then LLI_SLIP env else 0)
      else 0)"

text \<open>Lines 247-248 and 330-331.\<close>

definition half_lli :: "env \<Rightarrow> trackstat \<Rightarrow> u32 \<Rightarrow> u32" where
  "half_lli env ts lli =
     (let lli1 = (if ts_parity ts = 0 then lli OR LLI_HALFC env else lli)
      in if ts_halfc ts \<noteq> 0 then lli1 OR LLI_HALFA env else lli1)"

text \<open>Lines 249-251 and 332-334.\<close>

definition set_lock :: "raw \<Rightarrow> int \<Rightarrow> int \<Rightarrow> real \<Rightarrow> u32 \<Rightarrow> raw" where
  "set_lock raw sat pos lockt halfc =
     raw\<lparr>raw_tobs := (raw_tobs raw)(sat - 1 := (raw_tobs raw (sat - 1))(pos := raw_time raw)),
         raw_lockt := (raw_lockt raw)(sat - 1 := (raw_lockt raw (sat - 1))(pos := lockt)),
         raw_halfc := (raw_halfc raw)(sat - 1 := (raw_halfc raw (sat - 1))(pos := ucast halfc))\<rparr>"

text \<open>Lines 256-258 and 340-342.\<close>

definition flush_epoch :: "env \<Rightarrow> raw \<Rightarrow> raw" where
  "flush_epoch env raw =
     (if \<bar>timediff env (obsd_time (obs_data (raw_obs raw) 0)) (raw_time raw)\<bar> > 1 / 10 ^ 9
      then raw\<lparr>raw_obs := (raw_obs raw)\<lparr>obs_n := 0\<rparr>\<rparr> else raw)"

definition snr_byte :: "real \<Rightarrow> u8" where
  "snr_byte snr = (if 0 \<le> snr \<and> snr < 255 then uchar_of_double (snr * 4 + 0.5) else 0)"

text \<open>Lines 259-267 and 343-351.\<close>

definition store_obs ::
  "env \<Rightarrow> raw \<Rightarrow> int \<Rightarrow> int \<Rightarrow> real \<Rightarrow> real \<Rightarrow> real \<Rightarrow> real \<Rightarrow> u32 \<Rightarrow> obscode \<Rightarrow> raw" where
  "store_obs env raw sat pos l p dop snr lli code =
     (let (index, ob) = obsindex env (raw_obs raw) (raw_time raw) sat in
      if index \<ge> 0 then
        (let d = obs_data ob index;
             d1 = d\<lparr>obsd_L := (obsd_L d)(pos := l),
                    obsd_P := (obsd_P d)(pos := p),
                    obsd_D := (obsd_D d)(pos := to_float env dop),
                    obsd_SNR := (obsd_SNR d)(pos := snr_byte snr),
                    obsd_LLI := (obsd_LLI d)(pos := ucast lli),
                    obsd_code := (obsd_code d)(pos := code)\<rparr>
         in raw\<lparr>raw_obs := ob\<lparr>obs_data := (obs_data ob)(index := d1)\<rparr>\<rparr>)
      else raw\<lparr>raw_obs := ob\<rparr>)"

text \<open>
  The index \<open>obsindex\<close> returns for a record of satellite \<open>sat\<close> processed in state \<open>raw\<close>
  (after the epoch flush): \<open>-1\<close> when the observation is dropped.
\<close>

definition rec_index :: "env \<Rightarrow> raw \<Rightarrow> int \<Rightarrow> int" where
  "rec_index env raw sat = fst (obsindex env (raw_obs (flush_epoch env raw)) (raw_time raw) sat)"

subsection \<open>\<open>decode_rangeb\<close>\<close>

text \<open>Lines 236-239: the GLONASS frequency channel number.\<close>

definition set_glo_frq :: "raw \<Rightarrow> satsys \<Rightarrow> int \<Rightarrow> int \<Rightarrow> int \<Rightarrow> raw" where
  "set_glo_frq raw sys prn sat gfrq =
     (if sys = SYS_GLO \<and> geph_sat (nav_geph (raw_nav raw) (prn - 1)) \<noteq> sat then
        raw\<lparr>raw_nav := (raw_nav raw)\<lparr>nav_geph := (nav_geph (raw_nav raw))
               (prn - 1 := (nav_geph (raw_nav raw) (prn - 1))\<lparr>geph_frq := gfrq - 7\<rparr>)\<rparr>\<rparr>
      else raw)"

text \<open>One turn of the loop of \<open>decode_rangeb\<close>, for the record at offset \<open>p\<close> of the buffer.\<close>

definition rangeb_hdr :: "env \<Rightarrow> raw \<Rightarrow> int \<Rightarrow> (trackstat \<times> int \<times> int \<times> int) option" where
  "rangeb_hdr env raw p =
     accept_rec env (raw_opt raw) (U4 (raw_buff raw) (p + 40)) (uint (U2 (raw_buff raw) p))"

definition rangeb_rec :: "env \<Rightarrow> raw \<Rightarrow> int \<Rightarrow> raw" where
  "rangeb_rec env raw p =
     (let b = raw_buff raw in
      case rangeb_hdr env raw p of
        None \<Rightarrow> raw
      | Some (ts, pos, prn, sat) \<Rightarrow>
          (let gfrq = uint (U2 b (p + 2));
               psr = R8 env b (p + 4);
               adr = R8 env b (p + 16);
               dop = R4 env b (p + 28);
               snr = R4 env b (p + 32);
               lockt = R4 env b (p + 36);
               raw1 = set_glo_frq raw (ts_sys ts) prn sat gfrq;
               lli = half_lli env ts (slip_lli env raw1 sat pos True lockt);
               raw2 = set_lock raw1 sat pos lockt (ts_halfc ts);
               psr1 = (if ts_clock ts = 0 then 0 else psr);
               adr1 = (if ts_plock ts = 0 then 0 else adr);
               dop1 = (if ts_plock ts = 0 then 0 else dop);
               raw3 = flush_epoch env raw2
           in store_obs env raw3 sat pos (- adr1) psr1 dop1 snr lli (ts_code ts)))"

text \<open>
  \<open>nobs\<close> is the C int read from an unsigned field; \<open>UNICOREHLEN+4+nobs*44\<close> is computed
  in 32 bits (two's complement wrap-around, where C leaves signed overflow undefined).
\<close>

definition decode_rangeb :: "env \<Rightarrow> raw \<Rightarrow> int \<times> raw" where
  "decode_rangeb env raw =
     (let nobs = U4 (raw_buff raw) 28;
          raw1 = (if raw_outtype raw \<noteq> 0
                  then raw\<lparr>raw_msgtype := raw_msgtype raw @ '' nobs='' @ fmt_d env 2 (sint nobs)\<rparr>
                  else raw)
      in if raw_len raw1 < sint (28 + 4 + nobs * 44) then (- 1, raw1)
         else (1, foldl (\<lambda>r i. rangeb_rec env r (28 + 4 + 44 * i)) raw1 [0 .. sint nobs - 1]))"

subsection \<open>\<open>decode_rangecmpb\<close>\<close>

definition MAXVAL :: real where
  "MAXVAL = 8388608"

text \<open>Lines 313-316: the wavelength, with its fallback.\<close>

definition rangecmp_wavelen :: "env \<Rightarrow> raw \<Rightarrow> satsys \<Rightarrow> int \<Rightarrow> int \<Rightarrow> real" where
  "rangecmp_wavelen env raw sys sat freq =
     (let wavelen = satwavelen env sat freq (raw_nav raw) in
      if wavelen \<le> 0 then
        (if sys = SYS_GLO then CLIGHT env / (if freq = 0 then FREQ1_GLO env else FREQ2_GLO env)
         else lam_carr env freq)
      else wavelen)"

text \<open>Lines 317-319: the carrier phase from the raw ADR (already scaled by 1/256).\<close>

definition rangecmp_adr :: "real \<Rightarrow> real \<Rightarrow> real \<Rightarrow> real" where
  "rangecmp_adr psr wavelen adr =
     (let adr_rolls = (psr / wavelen + adr) / MAXVAL in
      - adr + MAXVAL * of_int \<lfloor>adr_rolls + (if adr_rolls \<le> 0 then - 0.5 else 0.5)\<rfloor>)"

definition rangecmpb_hdr :: "env \<Rightarrow> raw \<Rightarrow> int \<Rightarrow> (trackstat \<times> int \<times> int \<times> int) option" where
  "rangecmpb_hdr env raw p =
     accept_rec env (raw_opt raw) (U4 (raw_buff raw) p) (uint (U1 (raw_buff raw) (p + 17)))"

text \<open>The fields of a compressed record at offset \<open>p\<close> (lines 310, 311, 317, 321, 336).\<close>

definition cmp_dop :: "(int \<Rightarrow> u8) \<Rightarrow> int \<Rightarrow> real" where
  "cmp_dop b p = of_int (exsign (U4 b (p + 4) AND 0xFFFFFFF) 28) / 256"

definition cmp_psr :: "(int \<Rightarrow> u8) \<Rightarrow> int \<Rightarrow> real" where
  "cmp_psr b p = of_int (uint (drop_bit 4 (U4 b (p + 7)))) / 128
                 + of_int (uint (U1 b (p + 11))) * 2097152"

definition cmp_adr_raw :: "(int \<Rightarrow> u8) \<Rightarrow> int \<Rightarrow> real" where
  "cmp_adr_raw b p = of_int (I4 b (p + 12)) / 256"

definition cmp_lockt :: "(int \<Rightarrow> u8) \<Rightarrow> int \<Rightarrow> real" where
  "cmp_lockt b p = of_int (uint (U4 b (p + 18) AND 0x1FFFFF)) / 32"

definition cmp_snr :: "(int \<Rightarrow> u8) \<Rightarrow> int \<Rightarrow> real" where
  "cmp_snr b p = of_int (uint (drop_bit 5 (U2 b (p + 20) AND 0x3FF))) + 20"

definition rangecmpb_rec :: "env \<Rightarrow> raw \<Rightarrow> int \<Rightarrow> raw" where
  "rangecmpb_rec env raw p =
     (let b = raw_buff raw in
      case rangecmpb_hdr env raw p of
        None \<Rightarrow> raw
      | Some (ts, pos, prn, sat) \<Rightarrow>
          (let dop = cmp_dop b p;
               psr = cmp_psr b p;
               wavelen = rangecmp_wavelen env raw (ts_sys ts) sat (ts_freq ts);
               adr = rangecmp_adr psr wavelen (cmp_adr_raw b p);
               lockt = cmp_lockt b p;
               lli = half_lli env ts (slip_lli env raw sat pos (lockt < 65535.968) lockt);
               raw2 = set_lock raw sat pos lockt (ts_halfc ts);
               snr = cmp_snr b p;
               psr1 = (if ts_clock ts = 0 then 0 else psr);
               adr1 = (if ts_plock ts = 0 then 0 else adr);
               dop1 = (if ts_plock ts = 0 then 0 else dop);
               raw3 = flush_epoch env raw2
           in store_obs env raw3 sat pos adr1 psr1 dop1 snr lli (ts_code ts)))"

definition decode_rangecmpb :: "env \<Rightarrow> raw \<Rightarrow> int \<times> raw" where
  "decode_rangecmpb env raw =
     (let nobs = U4 (raw_buff raw) 28;
          raw1 = (if raw_outtype raw \<noteq> 0
                  then raw\<lparr>raw_msgtype := raw_msgtype raw @ '' nobs='' @ fmt_d env 2 (sint nobs)\<rparr>
                  else raw)
      in if raw_len raw1 < sint (28 + 4 + nobs * 24) then (- 1, raw1)
         else (1, foldl (\<lambda>r i. rangecmpb_rec env r (28 + 4 + 24 * i)) raw1 [0 .. sint nobs - 1]))"

subsection \<open>Ephemeris decoders\<close>

definition gtime0 :: gtime where
  "gtime0 = \<lparr>time = 0, sec = 0\<rparr>"

text \<open>\<open>eph_t eph={0}\<close> and \<open>geph_t geph={0}\<close>\<close>

definition eph0 :: eph where
  "eph0 = \<lparr>eph_sat = 0, eph_iode = 0, eph_iodc = 0, eph_sva = 0, eph_svh = 0, eph_week = 0,
     eph_code = 0, eph_toe = gtime0, eph_toc = gtime0, eph_ttr = gtime0, eph_A = 0, eph_e = 0,
     eph_i0 = 0, eph_OMG0 = 0, eph_omg = 0, eph_M0 = 0, eph_deln = 0, eph_OMGd = 0,
     eph_idot = 0, eph_crc = 0, eph_crs = 0, eph_cuc = 0, eph_cus = 0, eph_cic = 0,
     eph_cis = 0, eph_toes = 0, eph_f0 = 0, eph_f1 = 0, eph_f2 = 0, eph_tgd = (\<lambda>_. 0)\<rparr>"

definition geph0 :: geph where
  "geph0 = \<lparr>geph_sat = 0, geph_iode = 0, geph_frq = 0, geph_svh = 0, geph_age = 0,
     geph_toe = gtime0, geph_tof = gtime0, geph_pos = (\<lambda>_. 0), geph_vel = (\<lambda>_. 0),
     geph_acc = (\<lambda>_. 0), geph_taun = 0, geph_gamn = 0\<rparr>"

text \<open>
  The week-handover step shared by the GPS and Galileo decoders (lines 417-421 and
  574-580): the week and the time of ephemeris.
\<close>

definition handover_week :: "env \<Rightarrow> gtime \<Rightarrow> int \<Rightarrow> real \<Rightarrow> int" where
  "handover_week env now week toes =
     (let tt = timediff env (gpst2time env week toes) now in
      if tt < - 302400 then week + 1 else if tt > 302400 then week - 1 else week)"

text \<open>
  For each decoder the ephemeris it builds from the frame is a function of its own; the
  running pointer \<open>p\<close> of the C code is replaced by the offsets it has reached (the body
  starts at \<open>p = 28\<close>).
\<close>

definition gpsephemb_eph :: "env \<Rightarrow> raw \<Rightarrow> eph" where
  "gpsephemb_eph env raw =
     (let b = raw_buff raw; p = 28;
          prn = uint (U2 b p);
          tow = R8 env b (p + 4);
          week = sint (U4 b (p + 24));
          toes = R8 env b (p + 32);
          toc = R8 env b (p + 164);
          ura = R8 env b (p + 216);
          week1 = handover_week env (raw_time raw) (adjgpsweek env week) toes;
          toe = gpst2time env week1 toes
      in eph0\<lparr>eph_sat := satno env SYS_GPS prn,
              eph_svh := sint (U4 b (p + 12)),
              eph_iode := sint (U4 b (p + 16)),
              eph_toes := toes,
              eph_A := R8 env b (p + 40),
              eph_deln := R8 env b (p + 48),
              eph_M0 := R8 env b (p + 56),
              eph_e := R8 env b (p + 64),
              eph_omg := R8 env b (p + 72),
              eph_cuc := R8 env b (p + 80),
              eph_cus := R8 env b (p + 88),
              eph_crc := R8 env b (p + 96),
              eph_crs := R8 env b (p + 104),
              eph_cic := R8 env b (p + 112),
              eph_cis := R8 env b (p + 120),
              eph_i0 := R8 env b (p + 128),
              eph_idot := R8 env b (p + 136),
              eph_OMG0 := R8 env b (p + 144),
              eph_OMGd := R8 env b (p + 152),
              eph_iodc := sint (U4 b (p + 160)),
              eph_tgd := (eph_tgd eph0)(0 := R8 env b (p + 172)),
              eph_f0 := R8 env b (p + 180),
              eph_f1 := R8 env b (p + 188),
              eph_f2 := R8 env b (p + 196),
              eph_week := week1,
              eph_toe := toe,
              eph_toc := gpst2time env week1 toc,
              eph_ttr := adjweek env toe tow,
              eph_sva := uraindex env ura\<rparr>)"

text \<open>The store shared by the GPS, Galileo and BeiDou decoders: \<open>raw->nav.eph[eph.sat-1]=eph\<close>.\<close>

definition put_eph :: "raw \<Rightarrow> eph \<Rightarrow> raw" where
  "put_eph raw e =
     raw\<lparr>raw_nav := (raw_nav raw)\<lparr>nav_eph := (nav_eph (raw_nav raw))(eph_sat e - 1 := e)\<rparr>,
         raw_ephsat := eph_sat e\<rparr>"

definition decode_gpsephemb :: "env \<Rightarrow> raw \<Rightarrow> int \<times> raw" where
  "decode_gpsephemb env raw =
     (let b = raw_buff raw; p = 28 in
      if raw_len raw < 28 + 224 then (- 1, raw)
      else
        (let prn = uint (U2 b p);
             raw1 = (if raw_outtype raw \<noteq> 0
                     then raw\<lparr>raw_msgtype := raw_msgtype raw @ '' prn='' @ fmt_d env 3 prn\<rparr>
                     else raw);
             e = gpsephemb_eph env raw;
             iode2 = sint (U4 b (p + 20));
             old = nav_eph (raw_nav raw) (eph_sat e - 1)
         in if eph_sat e = 0 then (- 1, raw1)
            else if eph_iode e \<noteq> iode2 then (- 1, raw1)
            else if \<not> strstr (raw_opt raw) ''-EPHALL'' \<and>
                    timediff env (eph_toe old) (eph_toe e) = 0 \<and>
                    eph_iode old = eph_iode e \<and> eph_iodc old = eph_iodc e
                 then (0, raw1)
            else (2, put_eph raw1 e)))"

definition gloephemerisb_geph :: "env \<Rightarrow> raw \<Rightarrow> geph" where
  "gloephemerisb_geph env raw =
     (let b = raw_buff raw; p = 28;
          prn = uint (U2 b p) - 37;
          week = uint (U2 b (p + 6));
          tow = of_int \<lfloor>of_int (uint (U4 b (p + 8))) / 1000 + (0.5 :: real)\<rfloor>;
          toff = of_int (uint (U4 b (p + 12)));
          tof0 = of_int (uint (U4 b (p + 124))) - toff;
          tof1 = tof0 + of_int \<lfloor>tow / 86400\<rfloor> * 86400;
          tof2 = (if tof1 < tow - 43200 then tof1 + 86400
                  else if tof1 > tow + 43200 then tof1 - 86400 else tof1)
      in geph0\<lparr>geph_frq := uint (U2 b (p + 2)) + (- 7),
               geph_iode := uint (U4 b (p + 20) AND 0x7F),
               geph_svh := sint (U4 b (p + 24)),
               geph_pos := (\<lambda>_. 0)(0 := R8 env b (p + 28), 1 := R8 env b (p + 36),
                                    2 := R8 env b (p + 44)),
               geph_vel := (\<lambda>_. 0)(0 := R8 env b (p + 52), 1 := R8 env b (p + 60),
                                    2 := R8 env b (p + 68)),
               geph_acc := (\<lambda>_. 0)(0 := R8 env b (p + 76), 1 := R8 env b (p + 84),
                                    2 := R8 env b (p + 92)),
               geph_taun := R8 env b (p + 100),
               geph_gamn := R8 env b (p + 116),
               geph_age := sint (U4 b (p + 136)),
               geph_toe := gpst2time env week tow,
               geph_tof := gpst2time env week tof2,
               geph_sat := satno env SYS_GLO prn\<rparr>)"

definition decode_gloephemerisb :: "env \<Rightarrow> raw \<Rightarrow> int \<times> raw" where
  "decode_gloephemerisb env raw =
     (let b = raw_buff raw; p = 28 in
      if raw_len raw < 28 + 144 then (- 1, raw)
      else
        (let prn = uint (U2 b p) - 37;
             raw1 = (if raw_outtype raw \<noteq> 0
                     then raw\<lparr>raw_msgtype := raw_msgtype raw @ '' prn='' @ fmt_d env 3 prn\<rparr>
                     else raw);
             sat = satno env SYS_GLO prn;
             g = gloephemerisb_geph env raw;
             old = nav_geph (raw_nav raw) (prn - 1)
         in if sat = 0 then (- 1, raw1)
            else if \<not> strstr (raw_opt raw) ''-EPHALL'' \<and>
                    \<bar>timediff env (geph_toe g) (geph_toe old)\<bar> < 1 \<and>
                    geph_svh g = geph_svh old
                 then (0, raw1)
            else (2, raw1\<lparr>raw_nav := (raw_nav raw1)
                              \<lparr>nav_geph := (nav_geph (raw_nav raw1))(prn - 1 := g)\<rparr>,
                            raw_ephsat := sat\<rparr>)))"

text \<open>Ephemeris selection of the Galileo decoder (0: I/NAV, 1: F/NAV), lines 551-554.\<close>

definition gal_sel_nav :: "string \<Rightarrow> u32 \<Rightarrow> u32 \<Rightarrow> int" where
  "gal_sel_nav opt rcv_fnav rcv_inav =
     (if strstr opt ''-GALINAV'' then 0
      else if strstr opt ''-GALFNAV'' then 1
      else if rcv_inav = 0 \<and> rcv_fnav \<noteq> 0 then 1 else 0)"

definition galephemerisb_eph :: "env \<Rightarrow> raw \<Rightarrow> eph" where
  "galephemerisb_eph env raw =
     (let b = raw_buff raw; p = 28;
          prn = sint (U4 b p);
          rcv_fnav = U4 b (p + 4) AND 1;
          rcv_inav = U4 b (p + 8) AND 1;
          svh_e1b = ucast (U1 b (p + 12) AND 3) :: u32;
          svh_e5a = ucast (U1 b (p + 13) AND 3) :: u32;
          svh_e5b = ucast (U1 b (p + 14) AND 3) :: u32;
          dvs_e1b = ucast (U1 b (p + 15) AND 1) :: u32;
          dvs_e5a = ucast (U1 b (p + 16) AND 1) :: u32;
          dvs_e5b = ucast (U1 b (p + 17) AND 1) :: u32;
          toes = of_int (uint (U4 b (p + 24)));
          sqrtA = R8 env b (p + 28);
          toc_fnav = sint (U4 b (p + 148));
          af0_fnav = R8 env b (p + 152);
          af1_fnav = R8 env b (p + 160);
          af2_fnav = R8 env b (p + 168);
          toc_inav = sint (U4 b (p + 176));
          af0_inav = R8 env b (p + 180);
          af1_inav = R8 env b (p + 188);
          af2_inav = R8 env b (p + 196);
          sel_nav = gal_sel_nav (raw_opt raw) rcv_fnav rcv_inav;
          (tow, week) = time2gpst env (raw_time raw);
          week1 = handover_week env (raw_time raw) week toes;
          toe = gpst2time env week1 toes
      in eph0\<lparr>eph_sva := uint (U1 b (p + 18)),
              eph_iode := sint (U4 b (p + 20)),
              eph_toes := toes,
              eph_deln := R8 env b (p + 36),
              eph_M0 := R8 env b (p + 44),
              eph_e := R8 env b (p + 52),
              eph_omg := R8 env b (p + 60),
              eph_cuc := R8 env b (p + 68),
              eph_cus := R8 env b (p + 76),
              eph_crc := R8 env b (p + 84),
              eph_crs := R8 env b (p + 92),
              eph_cic := R8 env b (p + 100),
              eph_cis := R8 env b (p + 108),
              eph_i0 := R8 env b (p + 116),
              eph_idot := R8 env b (p + 124),
              eph_OMG0 := R8 env b (p + 132),
              eph_OMGd := R8 env b (p + 140),
              eph_tgd := (eph_tgd eph0)(0 := R8 env b (p + 204), 1 := R8 env b (p + 212)),
              eph_iodc := sint (U4 b (p + 20)),
              eph_svh := uint (push_bit 7 svh_e5b OR push_bit 6 dvs_e5b OR push_bit 4 svh_e5a
                               OR push_bit 3 dvs_e5a OR push_bit 1 svh_e1b OR dvs_e1b),
              eph_A := sqrtA * sqrtA,
              eph_f0 := (if sel_nav \<noteq> 0 then af0_fnav else af0_inav),
              eph_f1 := (if sel_nav \<noteq> 0 then af1_fnav else af1_inav),
              eph_f2 := (if sel_nav \<noteq> 0 then af2_fnav else af2_inav),
              eph_code := (if sel_nav = 0 then 513 else 258),
              eph_sat := satno env SYS_GAL prn,
              eph_week := week1,
              eph_toe := toe,
              eph_toc := adjweek env toe (of_int (if sel_nav \<noteq> 0 then toc_fnav else toc_inav)),
              eph_ttr := adjweek env toe tow\<rparr>)"

definition decode_galephemerisb :: "env \<Rightarrow> raw \<Rightarrow> int \<times> raw" where
  "decode_galephemerisb env raw =
     (let b = raw_buff raw; p = 28 in
      if raw_len raw < 28 + 220 then (- 1, raw)
      else
        (let e = galephemerisb_eph env raw;
             raw1 = (if raw_outtype raw \<noteq> 0
                     then raw\<lparr>raw_msgtype := raw_msgtype raw @ '' prn=''
                            @ fmt_d env 3 (sint (U4 b p)) @ '' iod='' @ fmt_d env 3 (eph_iode e)
                            @ '' toes='' @ fmt_f0 env 6 (eph_toes e)\<rparr>
                     else raw);
             old = nav_eph (raw_nav raw) (eph_sat e - 1)
         in if eph_sat e = 0 then (- 1, raw1)
            else if \<not> strstr (raw_opt raw) ''-EPHALL'' \<and>
                    eph_iode old = eph_iode e \<and> eph_code old = eph_code e
                 then (0, raw1)
            else (2, put_eph raw1 e)))"

definition bd2ephemb_eph :: "env \<Rightarrow> raw \<Rightarrow> eph" where
  "bd2ephemb_eph env raw =
     (let b = raw_buff raw; p = 28;
          prn = sint (U4 b (p + 0));
          week = sint (U4 b (p + 24));
          ura = R8 env b (p + 224);
          toc = sint (U4 b (p + 164));
          toes = of_int (uint (U4 b (p + 32)))
      in eph0\<lparr>eph_week := week,
              eph_svh := uint (U4 b (p + 12) AND 1),
              eph_tgd := (eph_tgd eph0)(0 := R8 env b (p + 172), 1 := R8 env b (p + 180)),
              eph_iodc := sint (U4 b (p + 160)),
              eph_f0 := R8 env b (p + 188),
              eph_f1 := R8 env b (p + 196),
              eph_f2 := R8 env b (p + 204),
              eph_iode := sint (U4 b (p + 16)),
              eph_toes := toes,
              eph_e := R8 env b (p + 64),
              eph_omg := R8 env b (p + 72),
              eph_deln := R8 env b (p + 48),
              eph_M0 := R8 env b (p + 56),
              eph_OMG0 := R8 env b (p + 144),
              eph_OMGd := R8 env b (p + 152),
              eph_i0 := R8 env b (p + 128),
              eph_idot := R8 env b (p + 136),
              eph_cuc := R8 env b (p + 80),
              eph_cus := R8 env b (p + 88),
              eph_crc := R8 env b (p + 96),
              eph_crs := R8 env b (p + 104),
              eph_cic := R8 env b (p + 112),
              eph_cis := R8 env b (p + 120),
              eph_A := R8 env b (p + 40),
              eph_sva := uraindex env ura,
              eph_sat := satno env SYS_CMP prn,
              eph_toe := bdt2gpst env (bdt2time env week toes),
              eph_toc := bdt2gpst env (bdt2time env week (of_int toc)),
              eph_ttr := raw_time raw\<rparr>)"

definition decode_bd2ephemb :: "env \<Rightarrow> raw \<Rightarrow> int \<times> raw" where
  "decode_bd2ephemb env raw =
     (let b = raw_buff raw; p = 28 in
      if raw_len raw < 28 + 232 then (- 1, raw)
      else
        (let e = bd2ephemb_eph env raw;
             raw1 = (if raw_outtype raw \<noteq> 0
                     then raw\<lparr>raw_msgtype := raw_msgtype raw @ '' prn=''
                            @ fmt_d env 3 (sint (U4 b (p + 0))) @ '' iod='' @ fmt_d env 3 (eph_iode e)
                            @ '' toes='' @ fmt_f0 env 6 (eph_toes e)\<rparr>
                     else raw);
             old = nav_eph (raw_nav raw) (eph_sat e - 1)
         in if eph_sat e = 0 then (- 1, raw1)
            else if \<not> strstr (raw_opt raw) ''-EPHALL'' \<and>
                    timediff env (eph_toe old) (eph_toe e) = 0 \<and>
                    eph_iode old = eph_iode e \<and> eph_iodc old = eph_iodc e
                 then (0, raw1)
            else (2, put_eph raw1 e)))"

subsection \<open>\<open>decode_unicore\<close>\<close>

text \<open>Lines 673-684: the decoder time and the message type string of a frame.\<close>

definition stamped :: "env \<Rightarrow> raw \<Rightarrow> raw" where
  "stamped env raw =
     (let b = raw_buff raw;
          type = uint (U2 b 4);
          msg = uint (drop_bit 4 (U1 b 6) AND 3);
          week = adjgpsweek env (uint (U2 b 14));
          tow = of_int (uint (U4 b 16)) * 0.001;
          raw1 = raw\<lparr>raw_time := gpst2time env week tow\<rparr>
      in if raw_outtype raw \<noteq> 0
         then raw1\<lparr>raw_msgtype := ''UNICORE'' @ fmt_d env 4 type @ '' (''
                @ fmt_d env 4 (raw_len raw) @ ''): msg='' @ fmt_d env 0 msg
                @ '' '' @ time_str env (gpst2time env week tow) 2\<rparr>
         else raw1)"

definition decode_unicore :: "env \<Rightarrow> raw \<Rightarrow> int \<times> raw" where
  "decode_unicore env raw =
     (let b = raw_buff raw;
          type = uint (U2 b 4)
      in if rtk_crc32 env b (raw_len raw) \<noteq> U4 b (raw_len raw) then (- 1, raw)
         else if uint (U2 b 14) = 0 then (- 1, raw)
         else
           (let raw2 = stamped env raw
            in if type = 43 then decode_rangeb env raw2
               else if type = 140 then decode_rangecmpb env raw2
               else if type = 7 then decode_gpsephemb env raw2
               else if type = 723 then decode_gloephemerisb env raw2
               else if type = 1122 then decode_galephemerisb env raw2
               else if type = 1047 then decode_bd2ephemb env raw2
               else (0, raw2)))"

subsection \<open>File input: \<open>sync_unicore\<close> and \<open>input_unicoref\<close>\<close>

definition sync_unicore :: "(int \<Rightarrow> u8) \<Rightarrow> u8 \<Rightarrow> (int \<Rightarrow> u8) \<times> bool" where
  "sync_unicore buff data =
     (let b = buff(0 := buff 1, 1 := buff 2, 2 := data) in
      (b, b 0 = 0xAA \<and> b 1 = 0x44 \<and> b 2 = 0x12))"

text \<open>
  The file is the list of the bytes not yet read. The loop of lines 753-757, entered with
  the counter \<open>i\<close>: it ends at end of file, at a sync match, or once \<open>i\<close> has reached 4096.
\<close>

datatype sync_end = Sync_EOF | Sync_Found | Sync_Giveup

fun sync_search :: "(int \<Rightarrow> u8) \<Rightarrow> u8 list \<Rightarrow> nat \<Rightarrow> sync_end \<times> (int \<Rightarrow> u8) \<times> u8 list" where
  "sync_search buff [] i = (Sync_EOF, buff, [])"
| "sync_search buff (data # fp) i =
     (let (b, ok) = sync_unicore buff data in
      if ok then (Sync_Found, b, fp)
      else if i \<ge> 4096 then (Sync_Giveup, b, fp)
      else sync_search b fp (i + 1))"

text \<open>
  \<open>fread(buff+off,n,1,fp)\<close>: one item of \<open>n\<close> bytes. A short read stores the bytes that are
  left, leaves the file at its end and reads no item (\<open>False\<close>).
\<close>

definition put_bytes :: "(int \<Rightarrow> u8) \<Rightarrow> int \<Rightarrow> u8 list \<Rightarrow> (int \<Rightarrow> u8)" where
  "put_bytes buff off xs =
     (\<lambda>i. if off \<le> i \<and> i < off + int (length xs) then xs ! nat (i - off) else buff i)"

definition fread :: "(int \<Rightarrow> u8) \<Rightarrow> int \<Rightarrow> nat \<Rightarrow> u8 list \<Rightarrow> bool \<times> (int \<Rightarrow> u8) \<times> u8 list" where
  "fread buff off n fp =
     (if n \<le> length fp then (True, put_bytes buff off (take n fp), drop n fp)
      else (False, put_bytes buff off fp, []))"

definition input_unicoref :: "env \<Rightarrow> raw \<Rightarrow> u8 list \<Rightarrow> int \<times> raw \<times> u8 list" where
  "input_unicoref env raw fp =
     (case (if raw_nbyte raw = 0 then sync_search (raw_buff raw) fp 0
            else (Sync_Found, raw_buff raw, fp)) of
        (Sync_EOF, b, fp1) \<Rightarrow> (- 2, raw\<lparr>raw_buff := b\<rparr>, fp1)
      | (Sync_Giveup, b, fp1) \<Rightarrow> (0, raw\<lparr>raw_buff := b\<rparr>, fp1)
      | (Sync_Found, b, fp1) \<Rightarrow>
          (case fread b 3 7 fp1 of
             (False, b2, fp2) \<Rightarrow> (- 2, raw\<lparr>raw_buff := b2\<rparr>, fp2)
           | (True, b2, fp2) \<Rightarrow>
               (let raw1 = raw\<lparr>raw_buff := b2, raw_nbyte := 10, raw_len := uint (U2 b2 8) + 28\<rparr>
                in if raw_len raw1 > MAXRAWLEN env - 4 then (- 1, raw1\<lparr>raw_nbyte := 0\<rparr>, fp2)
                   else
                     (case fread b2 10 (nat (raw_len raw1 - 6)) fp2 of
                        (False, b3, fp3) \<Rightarrow> (- 2, raw1\<lparr>raw_buff := b3\<rparr>, fp3)
                      | (True, b3, fp3) \<Rightarrow>
                          (let (r, raw2) = decode_unicore env (raw1\<lparr>raw_buff := b3, raw_nbyte := 0\<rparr>)
                           in (r, raw2, fp3))))))"

subsection \<open>A concrete environment and decoder state\<close>

text \<open>
  The theorems below hold for every environment. To evaluate the model at concrete inputs
  one environment is fixed here, with the usual values of an RTKLIB build (three
  frequencies, no extended slots, 64 observations per epoch, LLI bits 0, 1 and 6, IEEE
  754 bit patterns for the finite numbers, the bitwise CRC-32 with the reflected
  polynomial \<open>0xEDB88320\<close> and a zero start value).
\<close>

definition ieee_value :: "bool \<Rightarrow> nat \<Rightarrow> nat \<Rightarrow> nat \<Rightarrow> nat \<Rightarrow> real" where
  "ieee_value neg e m mbits bias =
     (let mag = (if e = 0 then of_nat m * 2 / 2 ^ (bias + mbits)
                 else if bias + mbits \<le> e then of_nat (2 ^ mbits + m) * 2 ^ (e - (bias + mbits))
                 else of_nat (2 ^ mbits + m) / 2 ^ (bias + mbits - e))
      in if neg then - mag else mag)"

definition float_sample :: "u32 \<Rightarrow> real" where
  "float_sample w =
     (let e = unat (drop_bit 23 w AND 0xFF) in
      if e = 255 then 0 else ieee_value (bit w 31) e (unat (w AND 0x7FFFFF)) 23 127)"

definition double_sample :: "u64 \<Rightarrow> real" where
  "double_sample w =
     (let e = unat (drop_bit 52 w AND 0x7FF) in
      if e = 2047 then 0 else ieee_value (bit w 63) e (unat (w AND 0xFFFFFFFFFFFFF)) 52 1023)"

definition crc32_bit :: "u32 \<Rightarrow> u32" where
  "crc32_bit crc = (if crc AND 1 \<noteq> 0 then drop_bit 1 crc XOR 0xEDB88320 else drop_bit 1 crc)"

definition crc32_byte :: "u32 \<Rightarrow> u8 \<Rightarrow> u32" where
  "crc32_byte crc x =
     crc32_bit (crc32_bit (crc32_bit (crc32_bit (crc32_bit (crc32_bit (crc32_bit (crc32_bit
       (crc XOR ucast x))))))))"

definition crc32_sample :: "(int \<Rightarrow> u8) \<Rightarrow> int \<Rightarrow> u32" where
  "crc32_sample buff len = foldl (\<lambda>crc i. crc32_byte crc (buff i)) 0 [0 .. len - 1]"

fun satno_sample :: "satsys \<Rightarrow> int \<Rightarrow> int" where
  "satno_sample SYS_GPS prn = (if 1 \<le> prn \<and> prn \<le> 32 then prn else 0)"
| "satno_sample SYS_GLO prn = (if 1 \<le> prn \<and> prn \<le> 27 then 32 + prn else 0)"
| "satno_sample SYS_GAL prn = (if 1 \<le> prn \<and> prn \<le> 30 then 59 + prn else 0)"
| "satno_sample SYS_QZS prn = (if 193 \<le> prn \<and> prn \<le> 199 then 89 + prn - 192 else 0)"
| "satno_sample SYS_CMP prn = (if 1 \<le> prn \<and> prn \<le> 35 then 96 + prn else 0)"
| "satno_sample SYS_SBS prn = (if 120 \<le> prn \<and> prn \<le> 142 then 131 + prn - 119 else 0)"

definition lam_sample :: "int \<Rightarrow> real" where
  "lam_sample i =
     (if i = 0 then 299792458 / 1575420000
      else if i = 1 then 299792458 / 1227600000
      else if i = 2 then 299792458 / 1176450000 else 0)"

definition satwavelen_sample :: "int \<Rightarrow> int \<Rightarrow> nav \<Rightarrow> real" where
  "satwavelen_sample sat frq nv =
     (if 33 \<le> sat \<and> sat \<le> 59 then
        (if (frq = 0 \<or> frq = 1) \<and> geph_sat (nav_geph nv (sat - 33)) = sat then
           299792458 / ((if frq = 0 then 1602000000 else 1246000000)
              + (if frq = 0 then 562500 else 437500) * of_int (geph_frq (nav_geph nv (sat - 33))))
         else 0)
      else lam_sample frq)"

definition timediff_sample :: "gtime \<Rightarrow> gtime \<Rightarrow> real" where
  "timediff_sample t1 t2 = of_int (time t1 - time t2) + sec t1 - sec t2"

definition week2time :: "int \<Rightarrow> int \<Rightarrow> real \<Rightarrow> gtime" where
  "week2time t0 week s =
     (let s1 = (if s < - 1000000000 \<or> 1000000000 < s then 0 else s) in
      \<lparr>time = t0 + 604800 * week + c_trunc s1, sec = s1 - of_int (c_trunc s1)\<rparr>)"

definition time2gpst_sample :: "gtime \<Rightarrow> real \<times> int" where
  "time2gpst_sample t =
     (let s = time t - 315964800; w = s div 604800 in (of_int (s - w * 604800) + sec t, w))"

definition uraindex_sample :: "real \<Rightarrow> int" where
  "uraindex_sample v =
     int (length (takeWhile (\<lambda>u. u < v)
       [2.4, 3.4, 4.85, 6.85, 9.65, 13.65, 24, 48, 96, 192, 384, 768, 1536, 3072, 6144]))"

fun dec_str :: "nat \<Rightarrow> string" where
  "dec_str n = (if n < 10 then [char_of (48 + n)]
                else dec_str (n div 10) @ [char_of (48 + n mod 10)])"

definition fmt_sample :: "nat \<Rightarrow> int \<Rightarrow> string" where
  "fmt_sample w n =
     (let s = (if n < 0 then ''-'' else []) @ dec_str (nat \<bar>n\<bar>) in
      replicate (w - length s) (CHR '' '') @ s)"

definition env_sample :: env where
  "env_sample = \<lparr>NFREQ = 3, NEXOBS = 0, MAXOBS = 64, MAXRAWLEN = 4096,
     LLI_SLIP = 0x01, LLI_HALFC = 0x02, LLI_HALFA = 0x40,
     CLIGHT = 299792458, FREQ1_GLO = 1602000000, FREQ2_GLO = 1246000000,
     lam_carr = lam_sample, satno = satno_sample, satwavelen = satwavelen_sample,
     timediff = timediff_sample, gpst2time = week2time 315964800,
     time2gpst = time2gpst_sample, bdt2time = week2time 1136073600,
     bdt2gpst = (\<lambda>t. t\<lparr>time := time t + 14\<rparr>),
     adjgpsweek = (\<lambda>week. week + (2072 - week) div 1024 * 1024),
     uraindex = uraindex_sample, rtk_crc32 = crc32_sample,
     time_str = (\<lambda>t n. fmt_sample 0 (time t)),
     float_of_bits = float_sample, double_of_bits = double_sample,
     to_float = (\<lambda>x. x), fmt_d = fmt_sample,
     fmt_f0 = (\<lambda>w x. fmt_sample w \<lfloor>x + 1 / 2\<rfloor>)\<rparr>"

text \<open>The decoder state after \<open>init_raw\<close>: everything zero, no options.\<close>

definition obsd0 :: obsd where
  "obsd0 = \<lparr>obsd_time = gtime0, obsd_sat = 0, obsd_SNR = (\<lambda>_. 0), obsd_LLI = (\<lambda>_. 0),
     obsd_code = (\<lambda>_. CODE_NONE), obsd_L = (\<lambda>_. 0), obsd_P = (\<lambda>_. 0), obsd_D = (\<lambda>_. 0)\<rparr>"

definition raw0 :: raw where
  "raw0 = \<lparr>raw_time = gtime0, raw_tobs = (\<lambda>_ _. gtime0),
     raw_obs = \<lparr>obs_n = 0, obs_data = (\<lambda>_. obsd0)\<rparr>,
     raw_nav = \<lparr>nav_eph = (\<lambda>_. eph0), nav_geph = (\<lambda>_. geph0)\<rparr>,
     raw_ephsat = 0, raw_msgtype = [], raw_lockt = (\<lambda>_ _. 0), raw_halfc = (\<lambda>_ _. 0),
     raw_nbyte = 0, raw_len = 0, raw_outtype = 0, raw_buff = (\<lambda>_. 0), raw_opt = []\<rparr>"

text \<open>
  Sample inputs. \<open>raw_prev\<close>: the decoder at time 1000 s, with a previous observation of
  satellite 5, slot 0, at time 999 s and lock time 10 s. \<open>raw_range1\<close>: a RANGE frame with
  one record (offset 32) for GPS PRN 5, L1 C/A, all lock bits set, lock time 5 s.
  \<open>raw_rangecmp1\<close>: the same as a RANGECMP record.
\<close>

definition ts_gps_l1 :: trackstat where
  "ts_gps_l1 = \<lparr>ts_freq = 0, ts_sys = SYS_GPS, ts_code = CODE_L1C, ts_track = 0,
     ts_plock = 1, ts_clock = 1, ts_parity = 1, ts_halfc = 0\<rparr>"

definition raw_prev :: raw where
  "raw_prev = raw0\<lparr>raw_time := \<lparr>time = 1000, sec = 0\<rparr>,
     raw_tobs := (\<lambda>_ _. gtime0)(4 := (\<lambda>_. gtime0)(0 := \<lparr>time = 999, sec = 0\<rparr>)),
     raw_lockt := (\<lambda>_ _. 0)(4 := (\<lambda>_. 0)(0 := 10))\<rparr>"

definition raw_range1 :: raw where
  "raw_range1 = raw_prev\<lparr>raw_buff := (\<lambda>_. 0)(32 := 5, 70 := 0xA0, 71 := 0x40, 73 := 0x1C),
     raw_len := 76\<rparr>"

definition raw_rangecmp1 :: raw where
  "raw_rangecmp1 = raw_prev\<lparr>raw_buff := (\<lambda>_. 0)(33 := 0x1C, 49 := 5, 50 := 0xA0),
     raw_len := 56\<rparr>"

text \<open>
  \<open>raw_range_unlocked\<close>, \<open>raw_rangecmp_unlocked\<close>: a record for GPS PRN 5 whose status word
  has only bit 28 set (no code lock, no phase lock, parity unknown, half cycle added).
\<close>

definition raw_range_unlocked :: raw where
  "raw_range_unlocked = raw_prev\<lparr>raw_buff := (\<lambda>_. 0)(32 := 5, 42 := 0xF0, 43 := 0x3F,
     54 := 0xF0, 55 := 0x3F, 75 := 0x10), raw_len := 76\<rparr>"

definition raw_rangecmp_unlocked :: raw where
  "raw_rangecmp_unlocked = raw_prev\<lparr>raw_buff := (\<lambda>_. 0)(35 := 0x10, 40 := 0x10, 49 := 5),
     raw_len := 56\<rparr>"

definition ts_gps_unlocked :: trackstat where
  "ts_gps_unlocked = \<lparr>ts_freq = 0, ts_sys = SYS_GPS, ts_code = CODE_L1C, ts_track = 0,
     ts_plock = 0, ts_clock = 0, ts_parity = 0, ts_halfc = 1\<rparr>"

text \<open>
  The SNR byte as the specification words it: \<open>round(snr * 4)\<close> clamped to 0..255.
  \<open>raw_snr100\<close> and \<open>raw_snr45\<close>: a RANGE record for GPS PRN 5 with C/N0 100.0 and 45.0
  (single-precision patterns \<open>0x42C80000\<close> and \<open>0x42340000\<close>).
\<close>

definition spec_snr_clamped :: "real \<Rightarrow> u8" where
  "spec_snr_clamped snr = word_of_int (min 255 (max 0 (round (snr * 4))))"

definition raw_snr100 :: raw where
  "raw_snr100 = raw_prev\<lparr>raw_buff := (\<lambda>_. 0)(32 := 5, 66 := 0xC8, 67 := 0x42, 73 := 0x1C),
     raw_len := 76\<rparr>"

definition raw_snr45 :: raw where
  "raw_snr45 = raw_prev\<lparr>raw_buff := (\<lambda>_. 0)(32 := 5, 66 := 0x34, 67 := 0x42, 73 := 0x1C),
     raw_len := 76\<rparr>"

text \<open>
  \<open>raw_full\<close>, \<open>raw_cmp_full\<close>: the sample frames with the epoch buffer already holding 64
  entries of the current epoch.
\<close>

definition raw_full :: raw where
  "raw_full = raw_range1\<lparr>raw_obs :=
     \<lparr>obs_n = 64, obs_data = (\<lambda>_. obsd0\<lparr>obsd_time := \<lparr>time = 1000, sec = 0\<rparr>\<rparr>)\<rparr>\<rparr>"

definition raw_cmp_full :: raw where
  "raw_cmp_full = raw_rangecmp1\<lparr>raw_obs :=
     \<lparr>obs_n = 64, obs_data = (\<lambda>_. obsd0\<lparr>obsd_time := \<lparr>time = 1000, sec = 0\<rparr>\<rparr>)\<rparr>\<rparr>"

text \<open>
  \<open>raw_glo_new\<close>: a RANGE record for GLONASS slot 1 (PRN field 38, satellite 33), L1 C/A,
  parity known, frequency channel field 8, with no GLONASS ephemeris stored.
  \<open>raw_glo_eph\<close>: the same with an ephemeris of satellite 33 stored, channel number 0.
\<close>

definition ts_glo_l1 :: trackstat where
  "ts_glo_l1 = \<lparr>ts_freq = 0, ts_sys = SYS_GLO, ts_code = CODE_L1C, ts_track = 0,
     ts_plock = 0, ts_clock = 0, ts_parity = 1, ts_halfc = 0\<rparr>"

definition raw_glo_new :: raw where
  "raw_glo_new = raw_prev\<lparr>raw_buff := (\<lambda>_. 0)(32 := 38, 34 := 8, 73 := 0x08, 74 := 0x01),
     raw_len := 76\<rparr>"

definition raw_glo_eph :: raw where
  "raw_glo_eph = raw_glo_new\<lparr>raw_nav :=
     \<lparr>nav_eph = (\<lambda>_. eph0), nav_geph = (\<lambda>_. geph0)(0 := geph0\<lparr>geph_sat := 33\<rparr>)\<rparr>\<rparr>"

text \<open>
  \<open>raw_skip\<close>, \<open>raw_cmp_skip\<close>: a RANGE and a RANGECMP frame with \<open>nobs = 1\<close> whose only
  record has the unknown system code 7 in its status word.
\<close>

definition raw_skip :: raw where
  "raw_skip = raw_prev\<lparr>raw_buff := (\<lambda>_. 0)(28 := 1, 32 := 5, 74 := 0x07), raw_len := 76\<rparr>"

definition raw_cmp_skip :: raw where
  "raw_cmp_skip = raw_prev\<lparr>raw_buff := (\<lambda>_. 0)(28 := 1, 34 := 0x07, 49 := 5), raw_len := 56\<rparr>"

text \<open>
  Ephemeris frames, all-zero but for the PRN field: GPS PRN 5, GLONASS slot 1 (PRN field
  38), Galileo PRN 3 with the option \<open>-EPHALL\<close>, BeiDou PRN 7.
\<close>

definition raw_gps_eph :: raw where
  "raw_gps_eph = raw_prev\<lparr>raw_buff := (\<lambda>_. 0)(28 := 5), raw_len := 252\<rparr>"

definition raw_glo_ephem :: raw where
  "raw_glo_ephem = raw_prev\<lparr>raw_buff := (\<lambda>_. 0)(28 := 38), raw_len := 172\<rparr>"

definition raw_gal_eph :: raw where
  "raw_gal_eph = raw_prev\<lparr>raw_buff := (\<lambda>_. 0)(28 := 3), raw_len := 248, raw_opt := ''-EPHALL''\<rparr>"

definition raw_bds_eph :: raw where
  "raw_bds_eph = raw_prev\<lparr>raw_buff := (\<lambda>_. 0)(28 := 7), raw_len := 260\<rparr>"

text \<open>
  For the statements about the sync search. \<open>sync_at buff fp k\<close>: the three bytes ending
  with byte \<open>k\<close> of the file are the sync sequence, where the two bytes before the file are
  the ones the buffer holds in cells 1 and 2. \<open>shifted buff xs\<close>: the buffer after the bytes
  \<open>xs\<close> have been shifted in by \<open>sync_unicore\<close>.
\<close>

definition sync_at :: "(int \<Rightarrow> u8) \<Rightarrow> u8 list \<Rightarrow> nat \<Rightarrow> bool" where
  "sync_at buff fp k =
     (let s = [buff 1, buff 2] @ fp in s ! k = 0xAA \<and> s ! (k + 1) = 0x44 \<and> s ! (k + 2) = 0x12)"

definition shifted :: "(int \<Rightarrow> u8) \<Rightarrow> u8 list \<Rightarrow> (int \<Rightarrow> u8)" where
  "shifted buff xs = foldl (\<lambda>b d. fst (sync_unicore b d)) buff xs"

section \<open>Properties\<close>

subsection \<open>CRC check of the dispatcher\<close>

lemma crc32_bit_0: "crc32_bit 0 = 0"
  by (simp add: crc32_bit_def)

lemma crc32_byte_0: "crc32_byte 0 0 = 0"
  by (simp add: crc32_byte_def crc32_bit_0)

lemma crc32_zero:
  "(\<forall>i \<in> set js. buff i = 0) \<Longrightarrow> foldl (\<lambda>crc i. crc32_byte crc (buff i)) 0 js = 0"
  by (induction js) (simp_all add: crc32_byte_0)

text \<open>
  C1. A frame whose four-byte little-endian trailer differs from the CRC-32 of its first
  \<open>raw_len\<close> bytes makes \<open>decode_unicore\<close> return \<open>-1\<close> with the decoder state as it was:
  observation buffer, navigation data, decoder time and the lock-state arrays are all
  fields of that state.
\<close>

theorem decode_unicore_crc_error:
  "rtk_crc32 env (raw_buff raw) (raw_len raw) \<noteq> U4 (raw_buff raw) (raw_len raw)
   \<Longrightarrow> decode_unicore env raw = (- 1, raw)"
  by (simp add: decode_unicore_def Let_def)

theorem decode_unicore_crc_error_witness:
  "rtk_crc32 env_sample (raw_buff (raw0\<lparr>raw_buff := (\<lambda>_. 0)(28 := 1), raw_len := 28\<rparr>)) 28 = 0
   \<and> U4 (raw_buff (raw0\<lparr>raw_buff := (\<lambda>_. 0)(28 := 1), raw_len := 28\<rparr>)) 28 = 1
   \<and> decode_unicore env_sample (raw0\<lparr>raw_buff := (\<lambda>_. 0)(28 := 1), raw_len := 28\<rparr>)
       = (- 1, raw0\<lparr>raw_buff := (\<lambda>_. 0)(28 := 1), raw_len := 28\<rparr>)"
proof -
  have c: "rtk_crc32 env_sample ((\<lambda>_. 0)(28 := 1)) 28 = 0"
    by (simp add: env_sample_def crc32_sample_def crc32_zero)
  have u: "U4 ((\<lambda>_. 0)(28 := 1)) 28 = 1"
    by (simp add: U4_def)
  show ?thesis
    using decode_unicore_crc_error
      [of env_sample "raw0\<lparr>raw_buff := (\<lambda>_. 0)(28 := 1), raw_len := 28\<rparr>"] c u
    by simp
qed

subsection \<open>Helper facts: word arithmetic\<close>

lemma ucast_or8: "(ucast (a OR b :: u32) :: u8) = ucast a OR ucast b"
  by (rule bit_word_eqI) (auto simp: bit_simps)


lemma sint_small: "uint (w :: u32) < 2 ^ 31 \<Longrightarrow> sint w = uint w"
proof -
  assume a: "uint w < 2 ^ 31"
  have "signed_take_bit 31 (uint w) = uint w"
  proof (rule signed_take_bit_int_eq_self)
    have "0 \<le> uint w" by simp
    moreover have "- (2 ^ 31) \<le> (0::int)" by simp
    ultimately show "- (2 ^ 31) \<le> uint w" by (rule order_trans [rotated])
    show "uint w < 2 ^ 31" by (rule a)
  qed
  then show ?thesis by (simp add: sint_uint)
qed

subsection \<open>Helper facts: the steps of a record\<close>

lemma obsindex_full: "MAXOBS env \<le> obs_n ob \<Longrightarrow> obsindex env ob t sat = (- 1, ob)"
  by (simp add: obsindex_def)

lemma find_upto_ge: "List.find P [0 .. n] = Some i \<Longrightarrow> 0 \<le> i"
  by (auto simp: find_Some_iff)

lemma obsindex_nonneg: "obs_n ob < MAXOBS env \<Longrightarrow> 0 \<le> fst (obsindex env ob t sat)"
  by (auto simp: obsindex_def Let_def dest: find_upto_ge split: option.splits)

lemma obsindex_neg_iff: "fst (obsindex env ob t sat) < 0 \<longleftrightarrow> MAXOBS env \<le> obs_n ob"
  using obsindex_nonneg [of ob env t sat]
  by (cases "MAXOBS env \<le> obs_n ob") (auto simp: obsindex_full)

lemma obsindex_neg_same: "fst (obsindex env ob t sat) < 0 \<Longrightarrow> snd (obsindex env ob t sat) = ob"
  by (simp add: obsindex_neg_iff obsindex_full)

lemma flush_epoch_fields [simp]:
  "raw_time (flush_epoch env r) = raw_time r"
  "raw_nav (flush_epoch env r) = raw_nav r"
  "raw_tobs (flush_epoch env r) = raw_tobs r"
  "raw_lockt (flush_epoch env r) = raw_lockt r"
  "raw_halfc (flush_epoch env r) = raw_halfc r"
  "raw_buff (flush_epoch env r) = raw_buff r"
  "raw_opt (flush_epoch env r) = raw_opt r"
  by (simp_all add: flush_epoch_def)

lemma flush_epoch_obs_cong:
  "raw_obs r = raw_obs r' \<Longrightarrow> raw_time r = raw_time r' \<Longrightarrow>
   raw_obs (flush_epoch env r) = raw_obs (flush_epoch env r')"
  by (simp add: flush_epoch_def)

lemma set_lock_fields [simp]:
  "raw_time (set_lock r sat pos l h) = raw_time r"
  "raw_nav (set_lock r sat pos l h) = raw_nav r"
  "raw_obs (set_lock r sat pos l h) = raw_obs r"
  "raw_buff (set_lock r sat pos l h) = raw_buff r"
  "raw_opt (set_lock r sat pos l h) = raw_opt r"
  "raw_tobs (set_lock r sat pos l h) (sat - 1) pos = raw_time r"
  "raw_lockt (set_lock r sat pos l h) (sat - 1) pos = l"
  "raw_halfc (set_lock r sat pos l h) (sat - 1) pos = ucast h"
  by (simp_all add: set_lock_def)

lemma set_glo_frq_fields [simp]:
  "raw_time (set_glo_frq r sys prn sat g) = raw_time r"
  "raw_obs (set_glo_frq r sys prn sat g) = raw_obs r"
  "raw_tobs (set_glo_frq r sys prn sat g) = raw_tobs r"
  "raw_lockt (set_glo_frq r sys prn sat g) = raw_lockt r"
  "raw_halfc (set_glo_frq r sys prn sat g) = raw_halfc r"
  "raw_buff (set_glo_frq r sys prn sat g) = raw_buff r"
  "raw_opt (set_glo_frq r sys prn sat g) = raw_opt r"
  by (simp_all add: set_glo_frq_def)

lemma store_obs_fields [simp]:
  "raw_time (store_obs env r sat pos l p d s lli c) = raw_time r"
  "raw_nav (store_obs env r sat pos l p d s lli c) = raw_nav r"
  "raw_tobs (store_obs env r sat pos l p d s lli c) = raw_tobs r"
  "raw_lockt (store_obs env r sat pos l p d s lli c) = raw_lockt r"
  "raw_halfc (store_obs env r sat pos l p d s lli c) = raw_halfc r"
  "raw_buff (store_obs env r sat pos l p d s lli c) = raw_buff r"
  "raw_opt (store_obs env r sat pos l p d s lli c) = raw_opt r"
  by (simp_all add: store_obs_def Let_def split: prod.splits)

lemma store_obs_stored:
  assumes "fst (obsindex env (raw_obs r) (raw_time r) sat) = idx" and "0 \<le> idx"
  shows "obsd_L (obs_data (raw_obs (store_obs env r sat pos l p d s lli c)) idx) pos = l"
    and "obsd_P (obs_data (raw_obs (store_obs env r sat pos l p d s lli c)) idx) pos = p"
    and "obsd_D (obs_data (raw_obs (store_obs env r sat pos l p d s lli c)) idx) pos = to_float env d"
    and "obsd_SNR (obs_data (raw_obs (store_obs env r sat pos l p d s lli c)) idx) pos = snr_byte s"
    and "obsd_LLI (obs_data (raw_obs (store_obs env r sat pos l p d s lli c)) idx) pos = ucast lli"
    and "obsd_code (obs_data (raw_obs (store_obs env r sat pos l p d s lli c)) idx) pos = c"
  using assms by (auto simp: store_obs_def Let_def split: prod.splits)

lemma store_obs_dropped:
  assumes "fst (obsindex env (raw_obs r) (raw_time r) sat) < 0"
  shows "store_obs env r sat pos l p d s lli c = r"
  using assms obsindex_neg_same [OF assms]
  by (auto simp: store_obs_def Let_def split: prod.splits)

lemma slip_lli_cong:
  "raw_time r = raw_time r' \<Longrightarrow> raw_tobs r = raw_tobs r' \<Longrightarrow> raw_lockt r = raw_lockt r' \<Longrightarrow>
   slip_lli env r sat pos g l = slip_lli env r' sat pos g l"
  by (simp add: slip_lli_def)

lemma rec_index_eq:
  "raw_obs r = raw_obs raw \<Longrightarrow> raw_time r = raw_time raw \<Longrightarrow>
   fst (obsindex env (raw_obs (flush_epoch env r)) (raw_time (flush_epoch env r)) sat)
     = rec_index env raw sat"
  using flush_epoch_obs_cong [of r raw env] by (simp add: rec_index_def)

lemma rangeb_rec_Some:
  assumes "rangeb_hdr env raw p = Some (ts, pos, prn, sat)"
  shows "rangeb_rec env raw p =
    store_obs env
      (flush_epoch env
         (set_lock (set_glo_frq raw (ts_sys ts) prn sat (uint (U2 (raw_buff raw) (p + 2))))
            sat pos (R4 env (raw_buff raw) (p + 36)) (ts_halfc ts)))
      sat pos
      (- (if ts_plock ts = 0 then 0 else R8 env (raw_buff raw) (p + 16)))
      (if ts_clock ts = 0 then 0 else R8 env (raw_buff raw) (p + 4))
      (if ts_plock ts = 0 then 0 else R4 env (raw_buff raw) (p + 28))
      (R4 env (raw_buff raw) (p + 32))
      (half_lli env ts (slip_lli env raw sat pos True (R4 env (raw_buff raw) (p + 36))))
      (ts_code ts)"
  using assms
    slip_lli_cong [of "set_glo_frq raw (ts_sys ts) prn sat (uint (U2 (raw_buff raw) (p + 2)))"
      raw env sat pos True "R4 env (raw_buff raw) (p + 36)"]
  by (simp add: rangeb_rec_def Let_def)

lemma rangecmpb_rec_Some:
  assumes "rangecmpb_hdr env raw p = Some (ts, pos, prn, sat)"
  shows "rangecmpb_rec env raw p =
    store_obs env
      (flush_epoch env (set_lock raw sat pos (cmp_lockt (raw_buff raw) p) (ts_halfc ts)))
      sat pos
      (if ts_plock ts = 0 then 0
       else rangecmp_adr (cmp_psr (raw_buff raw) p)
              (rangecmp_wavelen env raw (ts_sys ts) sat (ts_freq ts))
              (cmp_adr_raw (raw_buff raw) p))
      (if ts_clock ts = 0 then 0 else cmp_psr (raw_buff raw) p)
      (if ts_plock ts = 0 then 0 else cmp_dop (raw_buff raw) p)
      (cmp_snr (raw_buff raw) p)
      (half_lli env ts (slip_lli env raw sat pos
          (cmp_lockt (raw_buff raw) p < 65535.968) (cmp_lockt (raw_buff raw) p)))
      (ts_code ts)"
  using assms by (simp add: rangecmpb_rec_def Let_def)

lemma rangeb_rec_index:
  "fst (obsindex env
     (raw_obs (flush_epoch env (set_lock (set_glo_frq raw sys prn sat g) sat pos l h)))
     (raw_time (flush_epoch env (set_lock (set_glo_frq raw sys prn sat g) sat pos l h))) sat)
   = rec_index env raw sat"
  by (rule rec_index_eq) simp_all

lemma rangecmpb_rec_index:
  "fst (obsindex env
     (raw_obs (flush_epoch env (set_lock raw sat pos l h)))
     (raw_time (flush_epoch env (set_lock raw sat pos l h))) sat)
   = rec_index env raw sat"
  by (rule rec_index_eq) simp_all

lemma rangeb_rec_stored:
  assumes h: "rangeb_hdr env raw p = Some (ts, pos, prn, sat)"
    and i: "rec_index env raw sat = idx" "0 \<le> idx"
  shows "obsd_L (obs_data (raw_obs (rangeb_rec env raw p)) idx) pos
           = - (if ts_plock ts = 0 then 0 else R8 env (raw_buff raw) (p + 16))"
    and "obsd_P (obs_data (raw_obs (rangeb_rec env raw p)) idx) pos
           = (if ts_clock ts = 0 then 0 else R8 env (raw_buff raw) (p + 4))"
    and "obsd_D (obs_data (raw_obs (rangeb_rec env raw p)) idx) pos
           = to_float env (if ts_plock ts = 0 then 0 else R4 env (raw_buff raw) (p + 28))"
    and "obsd_SNR (obs_data (raw_obs (rangeb_rec env raw p)) idx) pos
           = snr_byte (R4 env (raw_buff raw) (p + 32))"
    and "obsd_LLI (obs_data (raw_obs (rangeb_rec env raw p)) idx) pos
           = ucast (half_lli env ts
               (slip_lli env raw sat pos True (R4 env (raw_buff raw) (p + 36))))"
    and "obsd_code (obs_data (raw_obs (rangeb_rec env raw p)) idx) pos = ts_code ts"
  unfolding rangeb_rec_Some [OF h]
  using i by (simp_all only: store_obs_stored rangeb_rec_index)

lemma rangecmpb_rec_stored:
  assumes h: "rangecmpb_hdr env raw p = Some (ts, pos, prn, sat)"
    and i: "rec_index env raw sat = idx" "0 \<le> idx"
  shows "obsd_L (obs_data (raw_obs (rangecmpb_rec env raw p)) idx) pos
           = (if ts_plock ts = 0 then 0
              else rangecmp_adr (cmp_psr (raw_buff raw) p)
                     (rangecmp_wavelen env raw (ts_sys ts) sat (ts_freq ts))
                     (cmp_adr_raw (raw_buff raw) p))"
    and "obsd_P (obs_data (raw_obs (rangecmpb_rec env raw p)) idx) pos
           = (if ts_clock ts = 0 then 0 else cmp_psr (raw_buff raw) p)"
    and "obsd_D (obs_data (raw_obs (rangecmpb_rec env raw p)) idx) pos
           = to_float env (if ts_plock ts = 0 then 0 else cmp_dop (raw_buff raw) p)"
    and "obsd_SNR (obs_data (raw_obs (rangecmpb_rec env raw p)) idx) pos
           = snr_byte (cmp_snr (raw_buff raw) p)"
    and "obsd_LLI (obs_data (raw_obs (rangecmpb_rec env raw p)) idx) pos
           = ucast (half_lli env ts (slip_lli env raw sat pos
               (cmp_lockt (raw_buff raw) p < 65535.968) (cmp_lockt (raw_buff raw) p)))"
    and "obsd_code (obs_data (raw_obs (rangecmpb_rec env raw p)) idx) pos = ts_code ts"
  unfolding rangecmpb_rec_Some [OF h]
  using i by (simp_all only: store_obs_stored rangecmpb_rec_index)




lemma and_one_zero_iff: "(drop_bit n (w :: u32) AND 1 = 0) \<longleftrightarrow> \<not> bit w n"
  by (simp add: and_one_eq bit_iff_odd_drop_bit even_iff_mod_2_eq_zero)

lemma decode_trackstat_flags:
  assumes "decode_trackstat stat = Some ts"
  shows "ts_plock ts = 0 \<longleftrightarrow> \<not> bit stat 10"
    and "ts_parity ts = 0 \<longleftrightarrow> \<not> bit stat 11"
    and "ts_clock ts = 0 \<longleftrightarrow> \<not> bit stat 12"
    and "ts_halfc ts = 0 \<longleftrightarrow> \<not> bit stat 28"
  using assms
  by (auto simp: decode_trackstat_def Let_def and_one_zero_iff split: option.splits)

lemma accept_rec_trackstat:
  "accept_rec env opt stat prn0 = Some (ts, pos, prn, sat) \<Longrightarrow> decode_trackstat stat = Some ts"
  by (auto simp: accept_rec_def Let_def split: option.splits if_splits)

lemma half_lli_bits:
  "ts_parity ts = 0 \<Longrightarrow>
     (ucast (half_lli env ts lli) :: u8) AND ucast (LLI_HALFC env) = ucast (LLI_HALFC env)"
  "ts_halfc ts \<noteq> 0 \<Longrightarrow>
     (ucast (half_lli env ts lli) :: u8) AND ucast (LLI_HALFA env) = ucast (LLI_HALFA env)"
  by (rule bit_word_eqI; auto simp: half_lli_def Let_def bit_simps)+

subsection \<open>Evaluation of the sample inputs\<close>

lemma hdr_range1: "rangeb_hdr env_sample raw_range1 32 = Some (ts_gps_l1, 0, 5, 5)"
  by (simp add: rangeb_hdr_def accept_rec_def decode_trackstat_def satsys_of_def checkpri_def
      env_sample_def U4_def U2_def Let_def raw_range1_def raw_prev_def raw0_def ts_gps_l1_def)

lemma hdr_rangecmp1: "rangecmpb_hdr env_sample raw_rangecmp1 32 = Some (ts_gps_l1, 0, 5, 5)"
  by (simp add: rangecmpb_hdr_def accept_rec_def decode_trackstat_def satsys_of_def checkpri_def
      env_sample_def U4_def U1_def Let_def raw_rangecmp1_def raw_prev_def raw0_def ts_gps_l1_def)


lemma idx_rangecmp1: "rec_index env_sample raw_rangecmp1 5 = 0"
  by (simp add: rec_index_def flush_epoch_def obsindex_def env_sample_def timediff_sample_def
      raw_rangecmp1_def raw_prev_def raw0_def obsd0_def gtime0_def Let_def)

lemma lockt_range1: "R4 env_sample (raw_buff raw_range1) 68 = 5"
  by (simp add: R4_def U4_def env_sample_def float_sample_def ieee_value_def raw_range1_def Let_def)

lemma lockt_rangecmp1: "cmp_lockt (raw_buff raw_rangecmp1) 32 = 5"
  by (simp add: cmp_lockt_def U4_def raw_rangecmp1_def)


subsection \<open>Loss of lock\<close>




subsection \<open>Lock flags of the tracking status\<close>

lemma hdr_range_unlocked:
  "rangeb_hdr env_sample raw_range_unlocked 32 = Some (ts_gps_unlocked, 0, 5, 5)"
  by (simp add: rangeb_hdr_def accept_rec_def decode_trackstat_def satsys_of_def checkpri_def
      env_sample_def U4_def U2_def Let_def raw_range_unlocked_def raw_prev_def raw0_def
      ts_gps_unlocked_def)

lemma hdr_rangecmp_unlocked:
  "rangecmpb_hdr env_sample raw_rangecmp_unlocked 32 = Some (ts_gps_unlocked, 0, 5, 5)"
  by (simp add: rangecmpb_hdr_def accept_rec_def decode_trackstat_def satsys_of_def
      checkpri_def env_sample_def U4_def U1_def Let_def raw_rangecmp_unlocked_def raw_prev_def
      raw0_def ts_gps_unlocked_def)

lemma idx_unlocked:
  "rec_index env_sample raw_range_unlocked 5 = 0"
  "rec_index env_sample raw_rangecmp_unlocked 5 = 0"
  by (simp_all add: rec_index_def flush_epoch_def obsindex_def env_sample_def
      timediff_sample_def raw_range_unlocked_def raw_rangecmp_unlocked_def raw_prev_def
      raw0_def obsd0_def gtime0_def Let_def)

lemma rangeb_hdr_flags:
  assumes "rangeb_hdr env raw p = Some (ts, pos, prn, sat)"
  shows "ts_plock ts = 0 \<longleftrightarrow> \<not> bit (U4 (raw_buff raw) (p + 40)) 10"
    and "ts_parity ts = 0 \<longleftrightarrow> \<not> bit (U4 (raw_buff raw) (p + 40)) 11"
    and "ts_clock ts = 0 \<longleftrightarrow> \<not> bit (U4 (raw_buff raw) (p + 40)) 12"
    and "ts_halfc ts = 0 \<longleftrightarrow> \<not> bit (U4 (raw_buff raw) (p + 40)) 28"
  using decode_trackstat_flags [OF accept_rec_trackstat [OF assms [unfolded rangeb_hdr_def]]]
  by blast+

lemma rangecmpb_hdr_flags:
  assumes "rangecmpb_hdr env raw p = Some (ts, pos, prn, sat)"
  shows "ts_plock ts = 0 \<longleftrightarrow> \<not> bit (U4 (raw_buff raw) p) 10"
    and "ts_parity ts = 0 \<longleftrightarrow> \<not> bit (U4 (raw_buff raw) p) 11"
    and "ts_clock ts = 0 \<longleftrightarrow> \<not> bit (U4 (raw_buff raw) p) 12"
    and "ts_halfc ts = 0 \<longleftrightarrow> \<not> bit (U4 (raw_buff raw) p) 28"
  using decode_trackstat_flags [OF accept_rec_trackstat [OF assms [unfolded rangecmpb_hdr_def]]]
  by blast+

lemma stat_range_unlocked: "U4 (raw_buff raw_range_unlocked) (32 + 40) = 0x10000000"
  by (simp add: U4_def raw_range_unlocked_def)

lemma stat_rangecmp_unlocked: "U4 (raw_buff raw_rangecmp_unlocked) 32 = 0x10000000"
  by (simp add: U4_def raw_rangecmp_unlocked_def)

lemma bits_unlocked:
  "\<not> bit (0x10000000 :: u32) 12" "\<not> bit (0x10000000 :: u32) 10"
  "\<not> bit (0x10000000 :: u32) 11" "bit (0x10000000 :: u32) 28"
  by (simp_all add: bit_iff_odd_drop_bit)

text \<open>
  C4. For a record stored at index \<open>idx\<close> by either decoder: with the code-lock bit (12)
  of the status word clear the stored pseudorange is 0; with the phase-lock bit (10) clear
  the stored carrier phase and Doppler are 0; with the parity-known bit (11) clear the
  stored LLI contains the HALFC mask; with the half-cycle bit (28) set it contains the
  HALFA mask. The rounding to single precision is assumed to keep 0.
\<close>

theorem unlock_and_half_cycle:
  assumes f: "to_float env 0 = 0" and i: "0 \<le> idx"
  shows
    "(rangeb_hdr env raw p = Some (ts, pos, prn, sat) \<and> rec_index env raw sat = idx \<longrightarrow>
        (\<not> bit (U4 (raw_buff raw) (p + 40)) 12 \<longrightarrow>
           obsd_P (obs_data (raw_obs (rangeb_rec env raw p)) idx) pos = 0) \<and>
        (\<not> bit (U4 (raw_buff raw) (p + 40)) 10 \<longrightarrow>
           obsd_L (obs_data (raw_obs (rangeb_rec env raw p)) idx) pos = 0 \<and>
           obsd_D (obs_data (raw_obs (rangeb_rec env raw p)) idx) pos = 0) \<and>
        (\<not> bit (U4 (raw_buff raw) (p + 40)) 11 \<longrightarrow>
           obsd_LLI (obs_data (raw_obs (rangeb_rec env raw p)) idx) pos
             AND ucast (LLI_HALFC env) = ucast (LLI_HALFC env)) \<and>
        (bit (U4 (raw_buff raw) (p + 40)) 28 \<longrightarrow>
           obsd_LLI (obs_data (raw_obs (rangeb_rec env raw p)) idx) pos
             AND ucast (LLI_HALFA env) = ucast (LLI_HALFA env)))
     \<and> (rangecmpb_hdr env raw p = Some (ts, pos, prn, sat) \<and> rec_index env raw sat = idx \<longrightarrow>
        (\<not> bit (U4 (raw_buff raw) p) 12 \<longrightarrow>
           obsd_P (obs_data (raw_obs (rangecmpb_rec env raw p)) idx) pos = 0) \<and>
        (\<not> bit (U4 (raw_buff raw) p) 10 \<longrightarrow>
           obsd_L (obs_data (raw_obs (rangecmpb_rec env raw p)) idx) pos = 0 \<and>
           obsd_D (obs_data (raw_obs (rangecmpb_rec env raw p)) idx) pos = 0) \<and>
        (\<not> bit (U4 (raw_buff raw) p) 11 \<longrightarrow>
           obsd_LLI (obs_data (raw_obs (rangecmpb_rec env raw p)) idx) pos
             AND ucast (LLI_HALFC env) = ucast (LLI_HALFC env)) \<and>
        (bit (U4 (raw_buff raw) p) 28 \<longrightarrow>
           obsd_LLI (obs_data (raw_obs (rangecmpb_rec env raw p)) idx) pos
             AND ucast (LLI_HALFA env) = ucast (LLI_HALFA env)))"
proof (intro conjI impI; (elim conjE)?)
  assume h: "rangeb_hdr env raw p = Some (ts, pos, prn, sat)" and r: "rec_index env raw sat = idx"
  note st = rangeb_rec_stored [OF h r i] and fl = rangeb_hdr_flags [OF h]
  show "obsd_P (obs_data (raw_obs (rangeb_rec env raw p)) idx) pos = 0"
    if "\<not> bit (U4 (raw_buff raw) (p + 40)) 12"
    using that st(2) fl(3) by simp
  show "obsd_L (obs_data (raw_obs (rangeb_rec env raw p)) idx) pos = 0"
    if "\<not> bit (U4 (raw_buff raw) (p + 40)) 10"
    using that st(1) fl(1) by simp
  show "obsd_D (obs_data (raw_obs (rangeb_rec env raw p)) idx) pos = 0"
    if "\<not> bit (U4 (raw_buff raw) (p + 40)) 10"
    using that st(3) fl(1) f by simp
  show "obsd_LLI (obs_data (raw_obs (rangeb_rec env raw p)) idx) pos
          AND ucast (LLI_HALFC env) = ucast (LLI_HALFC env)"
    if "\<not> bit (U4 (raw_buff raw) (p + 40)) 11"
    using that st(5) fl(2) half_lli_bits(1) by simp
  show "obsd_LLI (obs_data (raw_obs (rangeb_rec env raw p)) idx) pos
          AND ucast (LLI_HALFA env) = ucast (LLI_HALFA env)"
    if "bit (U4 (raw_buff raw) (p + 40)) 28"
    using that st(5) fl(4) half_lli_bits(2) by simp
next
  assume h: "rangecmpb_hdr env raw p = Some (ts, pos, prn, sat)"
    and r: "rec_index env raw sat = idx"
  note st = rangecmpb_rec_stored [OF h r i] and fl = rangecmpb_hdr_flags [OF h]
  show "obsd_P (obs_data (raw_obs (rangecmpb_rec env raw p)) idx) pos = 0"
    if "\<not> bit (U4 (raw_buff raw) p) 12"
    using that st(2) fl(3) by simp
  show "obsd_L (obs_data (raw_obs (rangecmpb_rec env raw p)) idx) pos = 0"
    if "\<not> bit (U4 (raw_buff raw) p) 10"
    using that st(1) fl(1) by simp
  show "obsd_D (obs_data (raw_obs (rangecmpb_rec env raw p)) idx) pos = 0"
    if "\<not> bit (U4 (raw_buff raw) p) 10"
    using that st(3) fl(1) f by simp
  show "obsd_LLI (obs_data (raw_obs (rangecmpb_rec env raw p)) idx) pos
          AND ucast (LLI_HALFC env) = ucast (LLI_HALFC env)"
    if "\<not> bit (U4 (raw_buff raw) p) 11"
    using that st(5) fl(2) half_lli_bits(1) by simp
  show "obsd_LLI (obs_data (raw_obs (rangecmpb_rec env raw p)) idx) pos
          AND ucast (LLI_HALFA env) = ucast (LLI_HALFA env)"
    if "bit (U4 (raw_buff raw) p) 28"
    using that st(5) fl(4) half_lli_bits(2) by simp
qed


theorem unlock_and_half_cycle_witness:
  "to_float env_sample 0 = 0
   \<and> rangeb_hdr env_sample raw_range_unlocked 32 = Some (ts_gps_unlocked, 0, 5, 5)
   \<and> rec_index env_sample raw_range_unlocked 5 = 0
   \<and> U4 (raw_buff raw_range_unlocked) (32 + 40) = 0x10000000
   \<and> obsd_P (obs_data (raw_obs (rangeb_rec env_sample raw_range_unlocked 32)) 0) 0 = 0
   \<and> obsd_L (obs_data (raw_obs (rangeb_rec env_sample raw_range_unlocked 32)) 0) 0 = 0
   \<and> obsd_D (obs_data (raw_obs (rangeb_rec env_sample raw_range_unlocked 32)) 0) 0 = 0
   \<and> obsd_LLI (obs_data (raw_obs (rangeb_rec env_sample raw_range_unlocked 32)) 0) 0
        AND ucast (LLI_HALFC env_sample) = ucast (LLI_HALFC env_sample)
   \<and> obsd_LLI (obs_data (raw_obs (rangeb_rec env_sample raw_range_unlocked 32)) 0) 0
        AND ucast (LLI_HALFA env_sample) = ucast (LLI_HALFA env_sample)
   \<and> rangecmpb_hdr env_sample raw_rangecmp_unlocked 32 = Some (ts_gps_unlocked, 0, 5, 5)
   \<and> rec_index env_sample raw_rangecmp_unlocked 5 = 0
   \<and> U4 (raw_buff raw_rangecmp_unlocked) 32 = 0x10000000
   \<and> obsd_P (obs_data (raw_obs (rangecmpb_rec env_sample raw_rangecmp_unlocked 32)) 0) 0 = 0
   \<and> obsd_L (obs_data (raw_obs (rangecmpb_rec env_sample raw_rangecmp_unlocked 32)) 0) 0 = 0
   \<and> obsd_D (obs_data (raw_obs (rangecmpb_rec env_sample raw_rangecmp_unlocked 32)) 0) 0 = 0
   \<and> obsd_LLI (obs_data (raw_obs (rangecmpb_rec env_sample raw_rangecmp_unlocked 32)) 0) 0
        AND ucast (LLI_HALFC env_sample) = ucast (LLI_HALFC env_sample)
   \<and> obsd_LLI (obs_data (raw_obs (rangecmpb_rec env_sample raw_rangecmp_unlocked 32)) 0) 0
        AND ucast (LLI_HALFA env_sample) = ucast (LLI_HALFA env_sample)"
proof -
  have f: "to_float env_sample 0 = 0" by (simp add: env_sample_def)
  have z: "(0::int) \<le> 0" by simp
  note th = unlock_and_half_cycle [OF f z]
  note a = th [of raw_range_unlocked 32 ts_gps_unlocked 0 5 5, THEN conjunct1, rule_format,
      OF conjI [OF hdr_range_unlocked idx_unlocked(1)], unfolded stat_range_unlocked]
  note b = th [of raw_rangecmp_unlocked 32 ts_gps_unlocked 0 5 5, THEN conjunct2, rule_format,
      OF conjI [OF hdr_rangecmp_unlocked idx_unlocked(2)], unfolded stat_rangecmp_unlocked]
  show ?thesis
    using f hdr_range_unlocked idx_unlocked stat_range_unlocked hdr_rangecmp_unlocked
      stat_rangecmp_unlocked a b bits_unlocked
    by blast
qed

subsection \<open>The SNR byte\<close>

lemma snr_byte_round:
  assumes "0 \<le> snr" and "round (snr * 4) \<le> 255"
  shows "uint (snr_byte snr) = round (snr * 4)"
proof -
  have r: "round (snr * 4) = \<lfloor>snr * 4 + 0.5\<rfloor>" by (simp add: round_def)
  have lt: "snr * 4 + 0.5 < 256" using assms(2) unfolding r by linarith
  then have s: "snr < 255" by simp
  have ge: "0 \<le> \<lfloor>snr * 4 + 0.5\<rfloor>" using assms(1) by simp
  have "snr_byte snr = word_of_int \<lfloor>snr * 4 + 0.5\<rfloor>"
    using assms(1) s by (simp add: snr_byte_def uchar_of_double_def c_trunc_def)
  moreover have "uint (word_of_int \<lfloor>snr * 4 + 0.5\<rfloor> :: u8) = \<lfloor>snr * 4 + 0.5\<rfloor>"
    using ge assms(2) unfolding r by (simp add: uint_word_of_int take_bit_eq_mod)
  ultimately show ?thesis by (simp add: r)
qed

lemma snr_byte_zero: "snr < 0 \<or> 255 \<le> snr \<Longrightarrow> snr_byte snr = 0"
  by (auto simp: snr_byte_def)

lemma cmp_snr_field: "uint (drop_bit 5 ((x :: u16) AND 0x3FF)) \<le> 31"
proof -
  have "drop_bit 5 (x AND 0x3FF) \<le> 31" by (simp add: word_and_le1)
  then show ?thesis by (simp add: word_le_def)
qed

lemma cmp_snr_range: "20 \<le> cmp_snr b p \<and> cmp_snr b p \<le> 51"
proof -
  let ?f = "uint (drop_bit 5 (U2 b (p + 20) AND 0x3FF))"
  have "(of_int ?f :: real) \<le> of_int 31"
    using cmp_snr_field [of "U2 b (p + 20)"] by (simp only: of_int_le_iff)
  moreover have "(of_int 0 :: real) \<le> of_int ?f"
    by (simp only: of_int_le_iff) simp
  ultimately show ?thesis unfolding cmp_snr_def by simp
qed

lemma cmp_snr_round:
  "round (cmp_snr b p * 4) = 4 * uint (drop_bit 5 (U2 b (p + 20) AND 0x3FF)) + 80"
proof -
  have "cmp_snr b p * 4 = of_int (4 * uint (drop_bit 5 (U2 b (p + 20) AND 0x3FF)) + 80)"
    by (simp add: cmp_snr_def)
  then show ?thesis by (simp only: round_of_int)
qed

lemma hdr_snr100: "rangeb_hdr env_sample raw_snr100 32 = Some (ts_gps_l1, 0, 5, 5)"
  by (simp add: rangeb_hdr_def accept_rec_def decode_trackstat_def satsys_of_def checkpri_def
      env_sample_def U4_def U2_def Let_def raw_snr100_def raw_prev_def raw0_def ts_gps_l1_def)

lemma idx_snr100: "rec_index env_sample raw_snr100 5 = 0"
  by (simp add: rec_index_def flush_epoch_def obsindex_def env_sample_def timediff_sample_def
      raw_snr100_def raw_prev_def raw0_def obsd0_def gtime0_def Let_def)

lemma snr_snr100: "R4 env_sample (raw_buff raw_snr100) 64 = 100"
  by (simp add: R4_def U4_def env_sample_def float_sample_def ieee_value_def raw_snr100_def Let_def)

lemma snr_byte_100: "snr_byte 100 = 144"
  by (simp add: snr_byte_def uchar_of_double_def c_trunc_def)

lemma hdr_snr45: "rangeb_hdr env_sample raw_snr45 32 = Some (ts_gps_l1, 0, 5, 5)"
  by (simp add: rangeb_hdr_def accept_rec_def decode_trackstat_def satsys_of_def checkpri_def
      env_sample_def U4_def U2_def Let_def raw_snr45_def raw_prev_def raw0_def ts_gps_l1_def)

lemma idx_snr45: "rec_index env_sample raw_snr45 5 = 0"
  by (simp add: rec_index_def flush_epoch_def obsindex_def env_sample_def timediff_sample_def
      raw_snr45_def raw_prev_def raw0_def obsd0_def gtime0_def Let_def)

lemma snr_snr45: "R4 env_sample (raw_buff raw_snr45) 64 = 45"
  by (simp add: R4_def U4_def env_sample_def float_sample_def ieee_value_def raw_snr45_def Let_def)

lemma snr_rangecmp1: "cmp_snr (raw_buff raw_rangecmp1) 32 = 20"
  by (simp add: cmp_snr_def U2_def raw_rangecmp1_def)

text \<open>
  C7, as the specification states it (the stored byte is \<open>round(snr * 4)\<close> clamped to the
  range of an unsigned byte), fails: a RANGE record with C/N0 = 100.0 passes the guard
  \<open>0.0<=snr&&snr<255.0\<close> and the byte stored is the low eight bits of 400, which is 144, not
  the clamped value 255 (and not 0).
\<close>

theorem snr_clamp_counterexample:
  "rangeb_hdr env_sample raw_snr100 32 = Some (ts_gps_l1, 0, 5, 5)
   \<and> rec_index env_sample raw_snr100 5 = 0
   \<and> R4 env_sample (raw_buff raw_snr100) 64 = 100
   \<and> obsd_SNR (obs_data (raw_obs (rangeb_rec env_sample raw_snr100 32)) 0) 0 = 144
   \<and> spec_snr_clamped (R4 env_sample (raw_buff raw_snr100) 64) = 255
   \<and> obsd_SNR (obs_data (raw_obs (rangeb_rec env_sample raw_snr100 32)) 0) 0
       \<noteq> spec_snr_clamped (R4 env_sample (raw_buff raw_snr100) 64)"
proof -
  have s: "obsd_SNR (obs_data (raw_obs (rangeb_rec env_sample raw_snr100 32)) 0) 0 = 144"
    using rangeb_rec_stored(4) [OF hdr_snr100 idx_snr100] snr_snr100 snr_byte_100 by simp
  have c: "spec_snr_clamped (R4 env_sample (raw_buff raw_snr100) 64) = 255"
    by (simp add: snr_snr100 spec_snr_clamped_def)
  show ?thesis using hdr_snr100 idx_snr100 snr_snr100 s c by simp
qed


text \<open>
  C7, amended. The decoders do not clamp. The stored byte equals \<open>round(snr * 4)\<close> whenever
  \<open>0 \<le> snr\<close> and \<open>round(snr * 4) \<le> 255\<close>, and it is 0 when \<open>snr < 0\<close> or \<open>255 \<le> snr\<close>. In
  \<open>decode_rangecmpb\<close> the C/N0 is a five-bit field plus 20, between 20 and 51, so the byte
  always equals \<open>round(snr * 4)\<close>.
\<close>

theorem snr_byte_stored:
  assumes i: "0 \<le> idx"
  shows
    "(rangeb_hdr env raw p = Some (ts, pos, prn, sat) \<and> rec_index env raw sat = idx \<longrightarrow>
        (0 \<le> R4 env (raw_buff raw) (p + 32) \<and> round (R4 env (raw_buff raw) (p + 32) * 4) \<le> 255
           \<longrightarrow> uint (obsd_SNR (obs_data (raw_obs (rangeb_rec env raw p)) idx) pos)
                 = round (R4 env (raw_buff raw) (p + 32) * 4)) \<and>
        (R4 env (raw_buff raw) (p + 32) < 0 \<or> 255 \<le> R4 env (raw_buff raw) (p + 32)
           \<longrightarrow> obsd_SNR (obs_data (raw_obs (rangeb_rec env raw p)) idx) pos = 0))
     \<and> (rangecmpb_hdr env raw p = Some (ts, pos, prn, sat) \<and> rec_index env raw sat = idx \<longrightarrow>
        uint (obsd_SNR (obs_data (raw_obs (rangecmpb_rec env raw p)) idx) pos)
          = round (cmp_snr (raw_buff raw) p * 4) \<and>
        20 \<le> cmp_snr (raw_buff raw) p \<and> cmp_snr (raw_buff raw) p \<le> 51)"
proof (intro conjI impI; (elim conjE)?)
  assume h: "rangeb_hdr env raw p = Some (ts, pos, prn, sat)" and r: "rec_index env raw sat = idx"
  note st = rangeb_rec_stored(4) [OF h r i]
  show "uint (obsd_SNR (obs_data (raw_obs (rangeb_rec env raw p)) idx) pos)
                 = round (R4 env (raw_buff raw) (p + 32) * 4)"
    if "0 \<le> R4 env (raw_buff raw) (p + 32)" "round (R4 env (raw_buff raw) (p + 32) * 4) \<le> 255"
    using that st snr_byte_round by simp
  show "obsd_SNR (obs_data (raw_obs (rangeb_rec env raw p)) idx) pos = 0"
    if "R4 env (raw_buff raw) (p + 32) < 0 \<or> 255 \<le> R4 env (raw_buff raw) (p + 32)"
    using that st snr_byte_zero by simp
next
  assume h: "rangecmpb_hdr env raw p = Some (ts, pos, prn, sat)"
    and r: "rec_index env raw sat = idx"
  note st = rangecmpb_rec_stored(4) [OF h r i]
  have rg: "20 \<le> cmp_snr (raw_buff raw) p" "cmp_snr (raw_buff raw) p \<le> 51"
    using cmp_snr_range [of "raw_buff raw" p] by simp_all
  have "round (cmp_snr (raw_buff raw) p * 4) \<le> 255"
    unfolding cmp_snr_round using cmp_snr_field [of "U2 (raw_buff raw) (p + 20)"] by linarith
  then show "uint (obsd_SNR (obs_data (raw_obs (rangecmpb_rec env raw p)) idx) pos)
          = round (cmp_snr (raw_buff raw) p * 4)"
    using st snr_byte_round [of "cmp_snr (raw_buff raw) p"] rg by simp
  show "20 \<le> cmp_snr (raw_buff raw) p" "cmp_snr (raw_buff raw) p \<le> 51" by (rule rg)+
qed

theorem snr_byte_stored_witness:
  "rangeb_hdr env_sample raw_snr45 32 = Some (ts_gps_l1, 0, 5, 5)
   \<and> rec_index env_sample raw_snr45 5 = 0
   \<and> R4 env_sample (raw_buff raw_snr45) 64 = 45
   \<and> uint (obsd_SNR (obs_data (raw_obs (rangeb_rec env_sample raw_snr45 32)) 0) 0) = 180
   \<and> rangecmpb_hdr env_sample raw_rangecmp1 32 = Some (ts_gps_l1, 0, 5, 5)
   \<and> rec_index env_sample raw_rangecmp1 5 = 0
   \<and> cmp_snr (raw_buff raw_rangecmp1) 32 = 20
   \<and> uint (obsd_SNR (obs_data (raw_obs (rangecmpb_rec env_sample raw_rangecmp1 32)) 0) 0) = 80"
proof -
  have z: "(0::int) \<le> 0" by simp
  note th = snr_byte_stored [OF z]
  have r45: "round (45 * 4 :: real) = 180" "round (20 * 4 :: real) = 80"
    by (simp_all add: round_def)
  have a: "uint (obsd_SNR (obs_data (raw_obs (rangeb_rec env_sample raw_snr45 32)) 0) 0) = 180"
    using th [of env_sample raw_snr45 32 ts_gps_l1 0 5 5, THEN conjunct1]
      hdr_snr45 idx_snr45 snr_snr45 r45 by simp
  have b: "uint (obsd_SNR (obs_data (raw_obs (rangecmpb_rec env_sample raw_rangecmp1 32)) 0) 0) = 80"
    using th [of env_sample raw_rangecmp1 32 ts_gps_l1 0 5 5, THEN conjunct2]
      hdr_rangecmp1 idx_rangecmp1 snr_rangecmp1 r45 by simp
  show ?thesis
    using hdr_snr45 idx_snr45 snr_snr45 a hdr_rangecmp1 idx_rangecmp1 snr_rangecmp1 b by blast
qed

subsection \<open>A full epoch buffer\<close>

lemma rec_index_neg_iff:
  "rec_index env raw sat < 0 \<longleftrightarrow> MAXOBS env \<le> obs_n (raw_obs (flush_epoch env raw))"
  by (simp add: rec_index_def obsindex_neg_iff)

lemma flush_epoch_obs_data [simp]:
  "obs_data (raw_obs (flush_epoch env r)) = obs_data (raw_obs r)"
  by (simp add: flush_epoch_def)

lemma slip_lli_next:
  assumes "raw_tobs r (sat - 1) pos = t" and "raw_lockt r (sat - 1) pos = l"
  shows "slip_lli env (r\<lparr>raw_time := t'\<rparr>) sat pos g l' =
     (if time t \<noteq> 0 \<and> g \<and> l' - l + 0.05 \<le> timediff env t' t then LLI_SLIP env else 0)"
  using assms by (simp add: slip_lli_def Let_def)

lemma rangeb_rec_lock:
  assumes h: "rangeb_hdr env raw p = Some (ts, pos, prn, sat)"
  shows "raw_tobs (rangeb_rec env raw p) (sat - 1) pos = raw_time raw"
    and "raw_lockt (rangeb_rec env raw p) (sat - 1) pos = R4 env (raw_buff raw) (p + 36)"
    and "raw_halfc (rangeb_rec env raw p) (sat - 1) pos = ucast (ts_halfc ts)"
  unfolding rangeb_rec_Some [OF h] by simp_all

lemma rangecmpb_rec_lock:
  assumes h: "rangecmpb_hdr env raw p = Some (ts, pos, prn, sat)"
  shows "raw_tobs (rangecmpb_rec env raw p) (sat - 1) pos = raw_time raw"
    and "raw_lockt (rangecmpb_rec env raw p) (sat - 1) pos = cmp_lockt (raw_buff raw) p"
    and "raw_halfc (rangecmpb_rec env raw p) (sat - 1) pos = ucast (ts_halfc ts)"
  unfolding rangecmpb_rec_Some [OF h] by simp_all

lemma rangeb_rec_dropped:
  assumes h: "rangeb_hdr env raw p = Some (ts, pos, prn, sat)" and n: "rec_index env raw sat < 0"
  shows "raw_obs (rangeb_rec env raw p) = raw_obs (flush_epoch env raw)"
proof -
  let ?r = "flush_epoch env
         (set_lock (set_glo_frq raw (ts_sys ts) prn sat (uint (U2 (raw_buff raw) (p + 2))))
            sat pos (R4 env (raw_buff raw) (p + 36)) (ts_halfc ts))"
  have "fst (obsindex env (raw_obs ?r) (raw_time ?r) sat) < 0"
    using n by (simp only: rangeb_rec_index)
  then have "rangeb_rec env raw p = ?r"
    unfolding rangeb_rec_Some [OF h] by (rule store_obs_dropped)
  moreover have "raw_obs ?r = raw_obs (flush_epoch env raw)"
    by (rule flush_epoch_obs_cong) simp_all
  ultimately show ?thesis by simp
qed

lemma rangecmpb_rec_dropped:
  assumes h: "rangecmpb_hdr env raw p = Some (ts, pos, prn, sat)"
    and n: "rec_index env raw sat < 0"
  shows "raw_obs (rangecmpb_rec env raw p) = raw_obs (flush_epoch env raw)"
proof -
  let ?r = "flush_epoch env (set_lock raw sat pos (cmp_lockt (raw_buff raw) p) (ts_halfc ts))"
  have "fst (obsindex env (raw_obs ?r) (raw_time ?r) sat) < 0"
    using n by (simp only: rangecmpb_rec_index)
  then have "rangecmpb_rec env raw p = ?r"
    unfolding rangecmpb_rec_Some [OF h] by (rule store_obs_dropped)
  moreover have "raw_obs ?r = raw_obs (flush_epoch env raw)"
    by (rule flush_epoch_obs_cong) simp_all
  ultimately show ?thesis by simp
qed

lemma hdr_full: "rangeb_hdr env_sample raw_full 32 = Some (ts_gps_l1, 0, 5, 5)"
  using hdr_range1 by (simp add: rangeb_hdr_def raw_full_def)

lemma hdr_cmp_full: "rangecmpb_hdr env_sample raw_cmp_full 32 = Some (ts_gps_l1, 0, 5, 5)"
  using hdr_rangecmp1 by (simp add: rangecmpb_hdr_def raw_cmp_full_def)

lemma n_full:
  "obs_n (raw_obs (flush_epoch env_sample raw_full)) = 64"
  "obs_n (raw_obs (flush_epoch env_sample raw_cmp_full)) = 64"
  by (simp_all add: flush_epoch_def env_sample_def timediff_sample_def raw_full_def
      raw_cmp_full_def raw_range1_def raw_rangecmp1_def raw_prev_def obsd0_def)

text \<open>
  C10. A record that passes the checks of the loop while the epoch buffer (after the flush
  step) already holds \<open>MAXOBS\<close> entries is not stored: \<open>obsindex\<close> returns \<open>-1\<close> and the
  observation data are as before. The lock-state arrays of its (satellite, slot) pair are
  updated all the same, to the current time, lock time and half-cycle flag, and the slip
  flag computed for the next record of that pair (at a later decoder time \<open>t'\<close>, with lock
  time \<open>l'\<close>) is computed from the values of the dropped record.
\<close>

theorem lock_state_set_when_dropped:
  "(rangeb_hdr env raw p = Some (ts, pos, prn, sat) \<and>
      MAXOBS env \<le> obs_n (raw_obs (flush_epoch env raw)) \<longrightarrow>
        rec_index env raw sat = - 1 \<and>
        obs_data (raw_obs (rangeb_rec env raw p)) = obs_data (raw_obs raw) \<and>
        obs_n (raw_obs (rangeb_rec env raw p)) = obs_n (raw_obs (flush_epoch env raw)) \<and>
        raw_tobs (rangeb_rec env raw p) (sat - 1) pos = raw_time raw \<and>
        raw_lockt (rangeb_rec env raw p) (sat - 1) pos = R4 env (raw_buff raw) (p + 36) \<and>
        raw_halfc (rangeb_rec env raw p) (sat - 1) pos = ucast (ts_halfc ts) \<and>
        slip_lli env ((rangeb_rec env raw p)\<lparr>raw_time := t'\<rparr>) sat pos g l' =
          (if time (raw_time raw) \<noteq> 0 \<and> g \<and>
              l' - R4 env (raw_buff raw) (p + 36) + 0.05 \<le> timediff env t' (raw_time raw)
           then LLI_SLIP env else 0))
   \<and> (rangecmpb_hdr env raw p = Some (ts, pos, prn, sat) \<and>
      MAXOBS env \<le> obs_n (raw_obs (flush_epoch env raw)) \<longrightarrow>
        rec_index env raw sat = - 1 \<and>
        obs_data (raw_obs (rangecmpb_rec env raw p)) = obs_data (raw_obs raw) \<and>
        obs_n (raw_obs (rangecmpb_rec env raw p)) = obs_n (raw_obs (flush_epoch env raw)) \<and>
        raw_tobs (rangecmpb_rec env raw p) (sat - 1) pos = raw_time raw \<and>
        raw_lockt (rangecmpb_rec env raw p) (sat - 1) pos = cmp_lockt (raw_buff raw) p \<and>
        raw_halfc (rangecmpb_rec env raw p) (sat - 1) pos = ucast (ts_halfc ts) \<and>
        slip_lli env ((rangecmpb_rec env raw p)\<lparr>raw_time := t'\<rparr>) sat pos g l' =
          (if time (raw_time raw) \<noteq> 0 \<and> g \<and>
              l' - cmp_lockt (raw_buff raw) p + 0.05 \<le> timediff env t' (raw_time raw)
           then LLI_SLIP env else 0))"
proof (intro conjI impI; (elim conjE)?)
  assume h: "rangeb_hdr env raw p = Some (ts, pos, prn, sat)"
    and m: "MAXOBS env \<le> obs_n (raw_obs (flush_epoch env raw))"
  show i: "rec_index env raw sat = - 1"
    using m by (simp add: rec_index_def obsindex_full)
  then have n: "rec_index env raw sat < 0" by simp
  note d = rangeb_rec_dropped [OF h n] and l = rangeb_rec_lock [OF h]
  show "obs_data (raw_obs (rangeb_rec env raw p)) = obs_data (raw_obs raw)"
    by (simp add: d)
  show "obs_n (raw_obs (rangeb_rec env raw p)) = obs_n (raw_obs (flush_epoch env raw))"
    by (simp add: d)
  show "raw_tobs (rangeb_rec env raw p) (sat - 1) pos = raw_time raw" by (rule l(1))
  show "raw_lockt (rangeb_rec env raw p) (sat - 1) pos = R4 env (raw_buff raw) (p + 36)"
    by (rule l(2))
  show "raw_halfc (rangeb_rec env raw p) (sat - 1) pos = ucast (ts_halfc ts)" by (rule l(3))
  show "slip_lli env ((rangeb_rec env raw p)\<lparr>raw_time := t'\<rparr>) sat pos g l' =
          (if time (raw_time raw) \<noteq> 0 \<and> g \<and>
              l' - R4 env (raw_buff raw) (p + 36) + 0.05 \<le> timediff env t' (raw_time raw)
           then LLI_SLIP env else 0)"
    by (rule slip_lli_next [OF l(1) l(2)])
next
  assume h: "rangecmpb_hdr env raw p = Some (ts, pos, prn, sat)"
    and m: "MAXOBS env \<le> obs_n (raw_obs (flush_epoch env raw))"
  show i: "rec_index env raw sat = - 1"
    using m by (simp add: rec_index_def obsindex_full)
  then have n: "rec_index env raw sat < 0" by simp
  note d = rangecmpb_rec_dropped [OF h n] and l = rangecmpb_rec_lock [OF h]
  show "obs_data (raw_obs (rangecmpb_rec env raw p)) = obs_data (raw_obs raw)"
    by (simp add: d)
  show "obs_n (raw_obs (rangecmpb_rec env raw p)) = obs_n (raw_obs (flush_epoch env raw))"
    by (simp add: d)
  show "raw_tobs (rangecmpb_rec env raw p) (sat - 1) pos = raw_time raw" by (rule l(1))
  show "raw_lockt (rangecmpb_rec env raw p) (sat - 1) pos = cmp_lockt (raw_buff raw) p"
    by (rule l(2))
  show "raw_halfc (rangecmpb_rec env raw p) (sat - 1) pos = ucast (ts_halfc ts)" by (rule l(3))
  show "slip_lli env ((rangecmpb_rec env raw p)\<lparr>raw_time := t'\<rparr>) sat pos g l' =
          (if time (raw_time raw) \<noteq> 0 \<and> g \<and>
              l' - cmp_lockt (raw_buff raw) p + 0.05 \<le> timediff env t' (raw_time raw)
           then LLI_SLIP env else 0)"
    by (rule slip_lli_next [OF l(1) l(2)])
qed

theorem lock_state_set_when_dropped_witness:
  "rangeb_hdr env_sample raw_full 32 = Some (ts_gps_l1, 0, 5, 5)
   \<and> MAXOBS env_sample \<le> obs_n (raw_obs (flush_epoch env_sample raw_full))
   \<and> rec_index env_sample raw_full 5 = - 1
   \<and> obs_data (raw_obs (rangeb_rec env_sample raw_full 32)) = obs_data (raw_obs raw_full)
   \<and> obs_n (raw_obs (rangeb_rec env_sample raw_full 32)) = 64
   \<and> raw_tobs (rangeb_rec env_sample raw_full 32) 4 0 = \<lparr>time = 1000, sec = 0\<rparr>
   \<and> raw_lockt (rangeb_rec env_sample raw_full 32) 4 0 = 5
   \<and> rangecmpb_hdr env_sample raw_cmp_full 32 = Some (ts_gps_l1, 0, 5, 5)
   \<and> MAXOBS env_sample \<le> obs_n (raw_obs (flush_epoch env_sample raw_cmp_full))
   \<and> rec_index env_sample raw_cmp_full 5 = - 1
   \<and> obs_data (raw_obs (rangecmpb_rec env_sample raw_cmp_full 32)) = obs_data (raw_obs raw_cmp_full)
   \<and> obs_n (raw_obs (rangecmpb_rec env_sample raw_cmp_full 32)) = 64
   \<and> raw_tobs (rangecmpb_rec env_sample raw_cmp_full 32) 4 0 = \<lparr>time = 1000, sec = 0\<rparr>
   \<and> raw_lockt (rangecmpb_rec env_sample raw_cmp_full 32) 4 0 = 5"
proof -
  have m: "MAXOBS env_sample \<le> obs_n (raw_obs (flush_epoch env_sample raw_full))"
    "MAXOBS env_sample \<le> obs_n (raw_obs (flush_epoch env_sample raw_cmp_full))"
    by (simp_all add: n_full) (simp_all add: env_sample_def)
  have t: "raw_time raw_full = \<lparr>time = 1000, sec = 0\<rparr>"
    "raw_time raw_cmp_full = \<lparr>time = 1000, sec = 0\<rparr>"
    by (simp_all add: raw_full_def raw_cmp_full_def raw_range1_def raw_rangecmp1_def raw_prev_def)
  have l: "R4 env_sample (raw_buff raw_full) 68 = 5" "cmp_lockt (raw_buff raw_cmp_full) 32 = 5"
    using lockt_range1 lockt_rangecmp1 by (simp_all add: raw_full_def raw_cmp_full_def)
  note a = lock_state_set_when_dropped [of env_sample raw_full 32 ts_gps_l1 0 5 5,
      THEN conjunct1, rule_format, OF conjI [OF hdr_full m(1)]]
  note b = lock_state_set_when_dropped [of env_sample raw_cmp_full 32 ts_gps_l1 0 5 5,
      THEN conjunct2, rule_format, OF conjI [OF hdr_cmp_full m(2)]]
  show ?thesis
    using hdr_full hdr_cmp_full m a b t l n_full by simp
qed

subsection \<open>GLONASS frequency channel number\<close>

lemma rangeb_rec_nav:
  assumes h: "rangeb_hdr env raw p = Some (ts, pos, prn, sat)"
  shows "raw_nav (rangeb_rec env raw p)
     = raw_nav (set_glo_frq raw (ts_sys ts) prn sat (uint (U2 (raw_buff raw) (p + 2))))"
  unfolding rangeb_rec_Some [OF h] by simp

lemma hdr_glo_new: "rangeb_hdr env_sample raw_glo_new 32 = Some (ts_glo_l1, 0, 1, 33)"
  by (simp add: rangeb_hdr_def accept_rec_def decode_trackstat_def satsys_of_def checkpri_def
      env_sample_def U4_def U2_def Let_def raw_glo_new_def raw_prev_def raw0_def ts_glo_l1_def)

lemma hdr_glo_eph: "rangeb_hdr env_sample raw_glo_eph 32 = Some (ts_glo_l1, 0, 1, 33)"
  using hdr_glo_new by (simp add: rangeb_hdr_def raw_glo_eph_def)

lemma gfrq_glo: "uint (U2 (raw_buff raw_glo_new) 34) - 7 = 1"
  "uint (U2 (raw_buff raw_glo_eph) 34) - 7 = 1"
  by (simp_all add: U2_def raw_glo_eph_def raw_glo_new_def)

text \<open>
  C6, as the specification states it (the channel number is set whenever the stored one
  differs from the received channel minus 7), fails: with an ephemeris of the satellite
  stored, the stored number 0 differs from the received 8 - 7 = 1 and is not changed.
\<close>

theorem glo_frq_counterexample:
  "rangeb_hdr env_sample raw_glo_eph 32 = Some (ts_glo_l1, 0, 1, 33)
   \<and> ts_sys ts_glo_l1 = SYS_GLO
   \<and> geph_frq (nav_geph (raw_nav raw_glo_eph) (1 - 1)) = 0
   \<and> uint (U2 (raw_buff raw_glo_eph) 34) - 7 = 1
   \<and> geph_frq (nav_geph (raw_nav (rangeb_rec env_sample raw_glo_eph 32)) (1 - 1)) = 0
   \<and> geph_frq (nav_geph (raw_nav raw_glo_eph) (1 - 1)) \<noteq> uint (U2 (raw_buff raw_glo_eph) 34) - 7
   \<and> geph_frq (nav_geph (raw_nav (rangeb_rec env_sample raw_glo_eph 32)) (1 - 1))
       \<noteq> uint (U2 (raw_buff raw_glo_eph) 34) - 7"
proof -
  have "raw_nav (rangeb_rec env_sample raw_glo_eph 32) = raw_nav raw_glo_eph"
    unfolding rangeb_rec_nav [OF hdr_glo_eph]
    by (simp add: set_glo_frq_def raw_glo_eph_def)
  then show ?thesis
    using hdr_glo_eph gfrq_glo(2) by (simp add: ts_glo_l1_def raw_glo_eph_def geph0_def)
qed

text \<open>
  C6, amended. For a GLONASS record that passes the checks of the loop of \<open>decode_rangeb\<close>,
  the channel number of the entry \<open>geph[prn-1]\<close> is set to the received channel minus 7
  exactly when the \<open>sat\<close> field of that entry differs from the satellite number of the
  record (no ephemeris of this satellite is stored); otherwise the navigation data are
  unchanged.
\<close>

theorem glo_frq_set:
  assumes "rangeb_hdr env raw p = Some (ts, pos, prn, sat)" and "ts_sys ts = SYS_GLO"
  shows "raw_nav (rangeb_rec env raw p) =
     (if geph_sat (nav_geph (raw_nav raw) (prn - 1)) \<noteq> sat
      then (raw_nav raw)\<lparr>nav_geph := (nav_geph (raw_nav raw))
             (prn - 1 := (nav_geph (raw_nav raw) (prn - 1))
                \<lparr>geph_frq := uint (U2 (raw_buff raw) (p + 2)) - 7\<rparr>)\<rparr>
      else raw_nav raw)"
  using assms(2) by (simp add: rangeb_rec_nav [OF assms(1)] set_glo_frq_def)

theorem glo_frq_set_witness:
  "rangeb_hdr env_sample raw_glo_new 32 = Some (ts_glo_l1, 0, 1, 33)
   \<and> ts_sys ts_glo_l1 = SYS_GLO
   \<and> geph_sat (nav_geph (raw_nav raw_glo_new) (1 - 1)) = 0
   \<and> geph_frq (nav_geph (raw_nav raw_glo_new) (1 - 1)) = 0
   \<and> geph_frq (nav_geph (raw_nav (rangeb_rec env_sample raw_glo_new 32)) (1 - 1)) = 1"
proof -
  have s: "ts_sys ts_glo_l1 = SYS_GLO" by (simp add: ts_glo_l1_def)
  have g: "geph_sat (nav_geph (raw_nav raw_glo_new) (1 - 1)) = 0"
    "geph_frq (nav_geph (raw_nav raw_glo_new) (1 - 1)) = 0"
    by (simp_all add: raw_glo_new_def raw_prev_def raw0_def geph0_def)
  have "geph_frq (nav_geph (raw_nav (rangeb_rec env_sample raw_glo_new 32)) (1 - 1)) = 1"
    using glo_frq_set [OF hdr_glo_new s] g gfrq_glo(1) by simp
  then show ?thesis using hdr_glo_new s g by simp
qed

subsection \<open>Carrier phase of the compressed record\<close>

text \<open>
  With \<open>adr_rolls = (P / \<lambda> + adr_raw) / MAXVAL\<close>, the code computes
  \<open>floor(adr_rolls + 0.5)\<close> for positive \<open>adr_rolls\<close>, which is the nearest integer, and
  \<open>floor(adr_rolls - 0.5)\<close> otherwise, which is the nearest integer minus one.
\<close>

lemma rangecmp_adr_pos:
  assumes "0 < (psr / wavelen + adr) / MAXVAL"
  shows "rangecmp_adr psr wavelen adr + adr
           = MAXVAL * of_int (round ((psr / wavelen + adr) / MAXVAL))"
  using assms by (simp add: rangecmp_adr_def Let_def round_def)

lemma rangecmp_adr_nonpos:
  assumes "(psr / wavelen + adr) / MAXVAL \<le> 0"
  shows "rangecmp_adr psr wavelen adr + adr
           = MAXVAL * of_int (round ((psr / wavelen + adr) / MAXVAL)) - MAXVAL"
proof -
  let ?r = "(psr / wavelen + adr) / MAXVAL"
  have "\<lfloor>?r + - 0.5\<rfloor> = \<lfloor>(?r + 0.5) - 1\<rfloor>" by simp
  also have "\<dots> = \<lfloor>?r + 0.5\<rfloor> - 1" by (simp only: floor_diff_one)
  finally have f: "\<lfloor>?r + - 0.5\<rfloor> = round ?r - 1" by (simp add: round_def)
  have "rangecmp_adr psr wavelen adr + adr = MAXVAL * of_int \<lfloor>?r + - 0.5\<rfloor>"
    using assms by (simp add: rangecmp_adr_def Let_def)
  then show ?thesis unfolding f by (simp add: algebra_simps)
qed

lemma psr_rangecmp1: "cmp_psr (raw_buff raw_rangecmp1) 32 = 0"
  by (simp add: cmp_psr_def U4_def U1_def raw_rangecmp1_def)

lemma adr_rangecmp1: "cmp_adr_raw (raw_buff raw_rangecmp1) 32 = 0"
  by (simp add: cmp_adr_raw_def I4_def U4_def raw_rangecmp1_def)

lemma wavelen_rangecmp1:
  "rangecmp_wavelen env_sample raw_rangecmp1 SYS_GPS 5 0 = 299792458 / 1575420000"
  by (simp add: rangecmp_wavelen_def env_sample_def satwavelen_sample_def lam_sample_def Let_def)

lemma rangecmp_adr_zero: "rangecmp_adr 0 w 0 = - 8388608"
  by (simp add: rangecmp_adr_def MAXVAL_def Let_def)

text \<open>
  C2 at a concrete record: GPS PRN 5, L1 C/A, phase locked, with all-zero pseudorange and
  ADR fields. Then \<open>adr_rolls = 0\<close>, the nearest integer \<open>k\<close> is 0 under every rounding
  convention, the stored carrier phase is \<open>-MAXVAL\<close>, and
  \<open>|L + adr_raw - MAXVAL * k| = MAXVAL\<close> is not below \<open>MAXVAL\<close>.
\<close>

theorem rangecmp_adr_rolls_zero:
  "rangecmpb_hdr env_sample raw_rangecmp1 32 = Some (ts_gps_l1, 0, 5, 5)
   \<and> rec_index env_sample raw_rangecmp1 5 = 0
   \<and> cmp_psr (raw_buff raw_rangecmp1) 32 = 0
   \<and> cmp_adr_raw (raw_buff raw_rangecmp1) 32 = 0
   \<and> rangecmp_wavelen env_sample raw_rangecmp1 SYS_GPS 5 0 = 299792458 / 1575420000
   \<and> obsd_L (obs_data (raw_obs (rangecmpb_rec env_sample raw_rangecmp1 32)) 0) 0 = - 8388608
   \<and> \<not> \<bar>obsd_L (obs_data (raw_obs (rangecmpb_rec env_sample raw_rangecmp1 32)) 0) 0
          + cmp_adr_raw (raw_buff raw_rangecmp1) 32
          - MAXVAL * of_int (round ((cmp_psr (raw_buff raw_rangecmp1) 32
                / rangecmp_wavelen env_sample raw_rangecmp1 SYS_GPS 5 0
                + cmp_adr_raw (raw_buff raw_rangecmp1) 32) / MAXVAL))\<bar> < MAXVAL"
proof -
  have l: "obsd_L (obs_data (raw_obs (rangecmpb_rec env_sample raw_rangecmp1 32)) 0) 0
      = - 8388608"
    using rangecmpb_rec_stored(1) [OF hdr_rangecmp1 idx_rangecmp1]
    by (simp add: ts_gps_l1_def psr_rangecmp1 adr_rangecmp1 rangecmp_adr_zero)
  show ?thesis
    unfolding l psr_rangecmp1 adr_rangecmp1 wavelen_rangecmp1
    using hdr_rangecmp1 idx_rangecmp1 by (simp add: MAXVAL_def)
qed

subsection \<open>Return value of the observation decoders\<close>

lemma nobs_len:
  fixes nobs :: u32 and k :: int
  assumes "32 + k * uint nobs < 2 ^ 31" and "0 < k" and "k < 2 ^ 31"
  shows "sint (28 + 4 + nobs * word_of_int k) = 32 + k * uint nobs" and "sint nobs = uint nobs"
proof -
  have n0: "0 \<le> uint nobs" by simp
  have "uint nobs \<le> k * uint nobs" using assms(2) n0 by (simp add: mult_le_cancel_right1)
  then have n: "uint nobs < 2 ^ 31" using assms(1) by linarith
  have k: "uint (word_of_int k :: u32) = k"
    using assms(2,3) by (simp add: uint_word_of_int take_bit_eq_mod)
  have p: "0 \<le> k * uint nobs" using assms(2) n0 by simp
  have "uint (28 + 4 + nobs * word_of_int k) = (32 + uint nobs * k) mod 2 ^ 32"
    by (simp add: uint_word_ariths mod_simps k)
  also have "\<dots> = 32 + uint nobs * k"
    using assms(1) p by (simp add: mult.commute)
  finally have u: "uint (28 + 4 + nobs * word_of_int k) = 32 + k * uint nobs"
    by (simp add: mult.commute)
  show "sint (28 + 4 + nobs * word_of_int k) = 32 + k * uint nobs"
    using sint_small [of "28 + 4 + nobs * word_of_int k"] u assms(1) by simp
  show "sint nobs = uint nobs" using n by (rule sint_small)
qed

lemma rangeb_rec_skip: "rangeb_hdr env r p = None \<Longrightarrow> rangeb_rec env r p = r"
  by (simp add: rangeb_rec_def)

lemma rangecmpb_rec_skip: "rangecmpb_hdr env r p = None \<Longrightarrow> rangecmpb_rec env r p = r"
  by (simp add: rangecmpb_rec_def)

lemma rangeb_all_skipped:
  "(\<forall>i \<in> set js. rangeb_hdr env r (28 + 4 + 44 * i) = None) \<Longrightarrow>
   foldl (\<lambda>r i. rangeb_rec env r (28 + 4 + 44 * i)) r js = r"
  by (induction js) (simp_all add: rangeb_rec_skip)

lemma rangecmpb_all_skipped:
  "(\<forall>i \<in> set js. rangecmpb_hdr env r (28 + 4 + 24 * i) = None) \<Longrightarrow>
   foldl (\<lambda>r i. rangecmpb_rec env r (28 + 4 + 24 * i)) r js = r"
  by (induction js) (simp_all add: rangecmpb_rec_skip)

lemma hdr_msgtype [simp]:
  "rangeb_hdr env (r\<lparr>raw_msgtype := m\<rparr>) p = rangeb_hdr env r p"
  "rangecmpb_hdr env (r\<lparr>raw_msgtype := m\<rparr>) p = rangecmpb_hdr env r p"
  by (simp_all add: rangeb_hdr_def rangecmpb_hdr_def)

lemma decode_rangeb_ok:
  assumes "28 + 4 + 44 * uint (U4 (raw_buff raw) 28) \<le> raw_len raw" and "raw_len raw < 2 ^ 31"
  shows "decode_rangeb env raw =
     (1, foldl (\<lambda>r i. rangeb_rec env r (28 + 4 + 44 * i))
           (if raw_outtype raw \<noteq> 0
            then raw\<lparr>raw_msgtype := raw_msgtype raw @ '' nobs=''
                   @ fmt_d env 2 (uint (U4 (raw_buff raw) 28))\<rparr>
            else raw)
           [0 .. uint (U4 (raw_buff raw) 28) - 1])"
proof -
  have "32 + 44 * uint (U4 (raw_buff raw) 28) < 2 ^ 31" using assms by simp
  from nobs_len [OF this] show ?thesis
    using assms(1) by (simp add: decode_rangeb_def Let_def)
qed

lemma decode_rangecmpb_ok:
  assumes "28 + 4 + 24 * uint (U4 (raw_buff raw) 28) \<le> raw_len raw" and "raw_len raw < 2 ^ 31"
  shows "decode_rangecmpb env raw =
     (1, foldl (\<lambda>r i. rangecmpb_rec env r (28 + 4 + 24 * i))
           (if raw_outtype raw \<noteq> 0
            then raw\<lparr>raw_msgtype := raw_msgtype raw @ '' nobs=''
                   @ fmt_d env 2 (uint (U4 (raw_buff raw) 28))\<rparr>
            else raw)
           [0 .. uint (U4 (raw_buff raw) 28) - 1])"
proof -
  have "32 + 24 * uint (U4 (raw_buff raw) 28) < 2 ^ 31" using assms by simp
  from nobs_len [OF this] show ?thesis
    using assms(1) by (simp add: decode_rangecmpb_def Let_def)
qed


lemma nobs_skip: "U4 (raw_buff raw_skip) 28 = 1" "U4 (raw_buff raw_cmp_skip) 28 = 1"
  by (simp_all add: U4_def raw_skip_def raw_cmp_skip_def)

lemma hdr_skip: "rangeb_hdr env_sample raw_skip 32 = None"
  by (simp add: rangeb_hdr_def accept_rec_def decode_trackstat_def satsys_of_def
      U4_def U2_def Let_def raw_skip_def)

lemma hdr_cmp_skip: "rangecmpb_hdr env_sample raw_cmp_skip 32 = None"
  by (simp add: rangecmpb_hdr_def accept_rec_def decode_trackstat_def satsys_of_def
      U4_def U1_def Let_def raw_cmp_skip_def)

lemma int_lt_1: "0 \<le> i \<and> i < (1::int) \<Longrightarrow> i = 0"
  by simp

text \<open>
  C8. When the frame length \<open>raw_len\<close> (a C int) is at least \<open>28 + 4 + 44 * nobs\<close>
  (\<open>24 * nobs\<close> for RANGECMP), \<open>decode_rangeb\<close> (\<open>decode_rangecmpb\<close>) returns 1, whatever the
  records are. If every record is skipped by one of the four checks of the loop (in
  particular if \<open>nobs = 0\<close>), the observation buffer, the navigation data and the lock-state
  arrays are returned unchanged: the return value 1 does not mean that an observation was
  stored.
\<close>

theorem range_decoders_return_1:
  "(28 + 4 + 44 * uint (U4 (raw_buff raw) 28) \<le> raw_len raw \<and> raw_len raw < 2 ^ 31 \<longrightarrow>
      fst (decode_rangeb env raw) = 1 \<and>
      ((\<forall>i. 0 \<le> i \<and> i < uint (U4 (raw_buff raw) 28) \<longrightarrow>
            rangeb_hdr env raw (28 + 4 + 44 * i) = None) \<longrightarrow>
         raw_obs (snd (decode_rangeb env raw)) = raw_obs raw \<and>
         raw_nav (snd (decode_rangeb env raw)) = raw_nav raw \<and>
         raw_tobs (snd (decode_rangeb env raw)) = raw_tobs raw \<and>
         raw_lockt (snd (decode_rangeb env raw)) = raw_lockt raw \<and>
         raw_halfc (snd (decode_rangeb env raw)) = raw_halfc raw))
   \<and> (28 + 4 + 24 * uint (U4 (raw_buff raw) 28) \<le> raw_len raw \<and> raw_len raw < 2 ^ 31 \<longrightarrow>
      fst (decode_rangecmpb env raw) = 1 \<and>
      ((\<forall>i. 0 \<le> i \<and> i < uint (U4 (raw_buff raw) 28) \<longrightarrow>
            rangecmpb_hdr env raw (28 + 4 + 24 * i) = None) \<longrightarrow>
         raw_obs (snd (decode_rangecmpb env raw)) = raw_obs raw \<and>
         raw_nav (snd (decode_rangecmpb env raw)) = raw_nav raw \<and>
         raw_tobs (snd (decode_rangecmpb env raw)) = raw_tobs raw \<and>
         raw_lockt (snd (decode_rangecmpb env raw)) = raw_lockt raw \<and>
         raw_halfc (snd (decode_rangecmpb env raw)) = raw_halfc raw))"
proof (intro conjI impI; (elim conjE)?)
  assume a: "28 + 4 + 44 * uint (U4 (raw_buff raw) 28) \<le> raw_len raw" "raw_len raw < 2 ^ 31"
  note d = decode_rangeb_ok [OF a]
  show "fst (decode_rangeb env raw) = 1" by (simp add: d)
  assume s: "\<forall>i. 0 \<le> i \<and> i < uint (U4 (raw_buff raw) 28) \<longrightarrow>
            rangeb_hdr env raw (28 + 4 + 44 * i) = None"
  let ?r = "if raw_outtype raw \<noteq> 0
            then raw\<lparr>raw_msgtype := raw_msgtype raw @ '' nobs=''
                   @ fmt_d env 2 (uint (U4 (raw_buff raw) 28))\<rparr>
            else raw"
  have "\<forall>i \<in> set [0 .. uint (U4 (raw_buff raw) 28) - 1].
          rangeb_hdr env ?r (28 + 4 + 44 * i) = None"
    using s by simp
  then have e: "snd (decode_rangeb env raw) = ?r"
    unfolding d by (simp only: snd_conv rangeb_all_skipped)
  show "raw_obs (snd (decode_rangeb env raw)) = raw_obs raw" by (simp add: e)
  show "raw_nav (snd (decode_rangeb env raw)) = raw_nav raw" by (simp add: e)
  show "raw_tobs (snd (decode_rangeb env raw)) = raw_tobs raw" by (simp add: e)
  show "raw_lockt (snd (decode_rangeb env raw)) = raw_lockt raw" by (simp add: e)
  show "raw_halfc (snd (decode_rangeb env raw)) = raw_halfc raw" by (simp add: e)
next
  assume a: "28 + 4 + 24 * uint (U4 (raw_buff raw) 28) \<le> raw_len raw" "raw_len raw < 2 ^ 31"
  note d = decode_rangecmpb_ok [OF a]
  show "fst (decode_rangecmpb env raw) = 1" by (simp add: d)
  assume s: "\<forall>i. 0 \<le> i \<and> i < uint (U4 (raw_buff raw) 28) \<longrightarrow>
            rangecmpb_hdr env raw (28 + 4 + 24 * i) = None"
  let ?r = "if raw_outtype raw \<noteq> 0
            then raw\<lparr>raw_msgtype := raw_msgtype raw @ '' nobs=''
                   @ fmt_d env 2 (uint (U4 (raw_buff raw) 28))\<rparr>
            else raw"
  have "\<forall>i \<in> set [0 .. uint (U4 (raw_buff raw) 28) - 1].
          rangecmpb_hdr env ?r (28 + 4 + 24 * i) = None"
    using s by simp
  then have e: "snd (decode_rangecmpb env raw) = ?r"
    unfolding d by (simp only: snd_conv rangecmpb_all_skipped)
  show "raw_obs (snd (decode_rangecmpb env raw)) = raw_obs raw" by (simp add: e)
  show "raw_nav (snd (decode_rangecmpb env raw)) = raw_nav raw" by (simp add: e)
  show "raw_tobs (snd (decode_rangecmpb env raw)) = raw_tobs raw" by (simp add: e)
  show "raw_lockt (snd (decode_rangecmpb env raw)) = raw_lockt raw" by (simp add: e)
  show "raw_halfc (snd (decode_rangecmpb env raw)) = raw_halfc raw" by (simp add: e)
qed

theorem range_decoders_return_1_witness:
  "28 + 4 + 44 * uint (U4 (raw_buff raw_skip) 28) \<le> raw_len raw_skip
   \<and> raw_len raw_skip < 2 ^ 31
   \<and> uint (U4 (raw_buff raw_skip) 28) = 1
   \<and> rangeb_hdr env_sample raw_skip (28 + 4 + 44 * 0) = None
   \<and> fst (decode_rangeb env_sample raw_skip) = 1
   \<and> raw_obs (snd (decode_rangeb env_sample raw_skip)) = raw_obs raw_skip
   \<and> raw_tobs (snd (decode_rangeb env_sample raw_skip)) = raw_tobs raw_skip
   \<and> 28 + 4 + 24 * uint (U4 (raw_buff raw_cmp_skip) 28) \<le> raw_len raw_cmp_skip
   \<and> raw_len raw_cmp_skip < 2 ^ 31
   \<and> uint (U4 (raw_buff raw_cmp_skip) 28) = 1
   \<and> rangecmpb_hdr env_sample raw_cmp_skip (28 + 4 + 24 * 0) = None
   \<and> fst (decode_rangecmpb env_sample raw_cmp_skip) = 1
   \<and> raw_obs (snd (decode_rangecmpb env_sample raw_cmp_skip)) = raw_obs raw_cmp_skip
   \<and> raw_tobs (snd (decode_rangecmpb env_sample raw_cmp_skip)) = raw_tobs raw_cmp_skip"
proof -
  have l: "28 + 4 + 44 * uint (U4 (raw_buff raw_skip) 28) \<le> raw_len raw_skip"
    "raw_len raw_skip < 2 ^ 31"
    "28 + 4 + 24 * uint (U4 (raw_buff raw_cmp_skip) 28) \<le> raw_len raw_cmp_skip"
    "raw_len raw_cmp_skip < 2 ^ 31"
    by (simp_all add: nobs_skip) (simp_all add: raw_skip_def raw_cmp_skip_def)
  have s: "\<forall>i. 0 \<le> i \<and> i < uint (U4 (raw_buff raw_skip) 28) \<longrightarrow>
            rangeb_hdr env_sample raw_skip (28 + 4 + 44 * i) = None"
    using hdr_skip by (auto simp: nobs_skip dest!: int_lt_1)
  have s': "\<forall>i. 0 \<le> i \<and> i < uint (U4 (raw_buff raw_cmp_skip) 28) \<longrightarrow>
            rangecmpb_hdr env_sample raw_cmp_skip (28 + 4 + 24 * i) = None"
    using hdr_cmp_skip by (auto simp: nobs_skip dest!: int_lt_1)
  note a = range_decoders_return_1 [of raw_skip env_sample, THEN conjunct1, rule_format,
      OF conjI [OF l(1,2)]]
  note b = range_decoders_return_1 [of raw_cmp_skip env_sample, THEN conjunct2, rule_format,
      OF conjI [OF l(3,4)]]
  show ?thesis
    using l a [THEN conjunct1] a [THEN conjunct2, THEN mp, OF s]
      b [THEN conjunct1] b [THEN conjunct2, THEN mp, OF s'] hdr_skip hdr_cmp_skip
    by (simp add: nobs_skip)
qed

text \<open>
  Through the dispatcher: a frame with matching CRC, a nonzero week and the message ID of
  RANGE (43) or RANGECMP (140) is handed to the decoder with its buffer and length
  unchanged, so \<open>decode_unicore\<close> returns 1 under the same length condition.
\<close>

lemma stamped_frame [simp]:
  "raw_buff (stamped env raw) = raw_buff raw"
  "raw_len (stamped env raw) = raw_len raw"
  by (simp_all add: stamped_def Let_def)

lemma decode_unicore_range:
  assumes "rtk_crc32 env (raw_buff raw) (raw_len raw) = U4 (raw_buff raw) (raw_len raw)"
    and "uint (U2 (raw_buff raw) 14) \<noteq> 0"
  shows "uint (U2 (raw_buff raw) 4) = 43 \<Longrightarrow>
           decode_unicore env raw = decode_rangeb env (stamped env raw)"
    and "uint (U2 (raw_buff raw) 4) = 140 \<Longrightarrow>
           decode_unicore env raw = decode_rangecmpb env (stamped env raw)"
  using assms by (simp_all add: decode_unicore_def Let_def)

lemma decode_unicore_range_1:
  assumes "rtk_crc32 env (raw_buff raw) (raw_len raw) = U4 (raw_buff raw) (raw_len raw)"
    and "uint (U2 (raw_buff raw) 14) \<noteq> 0"
    and "raw_len raw < 2 ^ 31"
  shows "uint (U2 (raw_buff raw) 4) = 43 \<Longrightarrow>
           28 + 4 + 44 * uint (U4 (raw_buff raw) 28) \<le> raw_len raw \<Longrightarrow>
           fst (decode_unicore env raw) = 1"
    and "uint (U2 (raw_buff raw) 4) = 140 \<Longrightarrow>
           28 + 4 + 24 * uint (U4 (raw_buff raw) 28) \<le> raw_len raw \<Longrightarrow>
           fst (decode_unicore env raw) = 1"
proof -
  show "fst (decode_unicore env raw) = 1"
    if "uint (U2 (raw_buff raw) 4) = 43"
      and "28 + 4 + 44 * uint (U4 (raw_buff raw) 28) \<le> raw_len raw"
    unfolding decode_unicore_range(1) [OF assms(1,2) that(1)]
    using decode_rangeb_ok [of "stamped env raw" env] that(2) assms(3) by simp
  show "fst (decode_unicore env raw) = 1"
    if "uint (U2 (raw_buff raw) 4) = 140"
      and "28 + 4 + 24 * uint (U4 (raw_buff raw) 28) \<le> raw_len raw"
    unfolding decode_unicore_range(2) [OF assms(1,2) that(1)]
    using decode_rangecmpb_ok [of "stamped env raw" env] that(2) assms(3) by simp
qed

subsection \<open>Ephemeris decoders: deduplication\<close>

lemma decode_gpsephemb_cases:
  assumes "28 + 224 \<le> raw_len raw" and "eph_sat (gpsephemb_eph env raw) \<noteq> 0"
    and "eph_iode (gpsephemb_eph env raw) = sint (U4 (raw_buff raw) (28 + 20))"
  shows "if \<not> strstr (raw_opt raw) ''-EPHALL'' \<and>
            timediff env (eph_toe (nav_eph (raw_nav raw) (eph_sat (gpsephemb_eph env raw) - 1)))
              (eph_toe (gpsephemb_eph env raw)) = 0 \<and>
            eph_iode (nav_eph (raw_nav raw) (eph_sat (gpsephemb_eph env raw) - 1))
              = eph_iode (gpsephemb_eph env raw) \<and>
            eph_iodc (nav_eph (raw_nav raw) (eph_sat (gpsephemb_eph env raw) - 1))
              = eph_iodc (gpsephemb_eph env raw)
         then fst (decode_gpsephemb env raw) = 0 \<and>
              raw_nav (snd (decode_gpsephemb env raw)) = raw_nav raw
         else fst (decode_gpsephemb env raw) = 2 \<and>
              raw_nav (snd (decode_gpsephemb env raw)) =
                (raw_nav raw)\<lparr>nav_eph := (nav_eph (raw_nav raw))
                   (eph_sat (gpsephemb_eph env raw) - 1 := gpsephemb_eph env raw)\<rparr>"
  using assms by (simp add: decode_gpsephemb_def Let_def put_eph_def)

lemma decode_gloephemerisb_cases:
  assumes "28 + 144 \<le> raw_len raw" and "geph_sat (gloephemerisb_geph env raw) \<noteq> 0"
  shows "if \<not> strstr (raw_opt raw) ''-EPHALL'' \<and>
            \<bar>timediff env (geph_toe (gloephemerisb_geph env raw))
               (geph_toe (nav_geph (raw_nav raw) (uint (U2 (raw_buff raw) 28) - 37 - 1)))\<bar> < 1 \<and>
            geph_svh (gloephemerisb_geph env raw)
              = geph_svh (nav_geph (raw_nav raw) (uint (U2 (raw_buff raw) 28) - 37 - 1))
         then fst (decode_gloephemerisb env raw) = 0 \<and>
              raw_nav (snd (decode_gloephemerisb env raw)) = raw_nav raw
         else fst (decode_gloephemerisb env raw) = 2 \<and>
              raw_nav (snd (decode_gloephemerisb env raw)) =
                (raw_nav raw)\<lparr>nav_geph := (nav_geph (raw_nav raw))
                   (uint (U2 (raw_buff raw) 28) - 37 - 1 := gloephemerisb_geph env raw)\<rparr>"
proof -
  have s: "geph_sat (gloephemerisb_geph env raw) = satno env SYS_GLO (uint (U2 (raw_buff raw) 28) - 37)"
    by (simp add: gloephemerisb_geph_def Let_def)
  show ?thesis
    using assms unfolding s by (simp add: decode_gloephemerisb_def Let_def)
qed

lemma decode_galephemerisb_cases:
  assumes "28 + 220 \<le> raw_len raw" and "eph_sat (galephemerisb_eph env raw) \<noteq> 0"
  shows "if \<not> strstr (raw_opt raw) ''-EPHALL'' \<and>
            eph_iode (nav_eph (raw_nav raw) (eph_sat (galephemerisb_eph env raw) - 1))
              = eph_iode (galephemerisb_eph env raw) \<and>
            eph_code (nav_eph (raw_nav raw) (eph_sat (galephemerisb_eph env raw) - 1))
              = eph_code (galephemerisb_eph env raw)
         then fst (decode_galephemerisb env raw) = 0 \<and>
              raw_nav (snd (decode_galephemerisb env raw)) = raw_nav raw
         else fst (decode_galephemerisb env raw) = 2 \<and>
              raw_nav (snd (decode_galephemerisb env raw)) =
                (raw_nav raw)\<lparr>nav_eph := (nav_eph (raw_nav raw))
                   (eph_sat (galephemerisb_eph env raw) - 1 := galephemerisb_eph env raw)\<rparr>"
  using assms by (simp add: decode_galephemerisb_def Let_def put_eph_def)

lemma decode_bd2ephemb_cases:
  assumes "28 + 232 \<le> raw_len raw" and "eph_sat (bd2ephemb_eph env raw) \<noteq> 0"
  shows "if \<not> strstr (raw_opt raw) ''-EPHALL'' \<and>
            timediff env (eph_toe (nav_eph (raw_nav raw) (eph_sat (bd2ephemb_eph env raw) - 1)))
              (eph_toe (bd2ephemb_eph env raw)) = 0 \<and>
            eph_iode (nav_eph (raw_nav raw) (eph_sat (bd2ephemb_eph env raw) - 1))
              = eph_iode (bd2ephemb_eph env raw) \<and>
            eph_iodc (nav_eph (raw_nav raw) (eph_sat (bd2ephemb_eph env raw) - 1))
              = eph_iodc (bd2ephemb_eph env raw)
         then fst (decode_bd2ephemb env raw) = 0 \<and>
              raw_nav (snd (decode_bd2ephemb env raw)) = raw_nav raw
         else fst (decode_bd2ephemb env raw) = 2 \<and>
              raw_nav (snd (decode_bd2ephemb env raw)) =
                (raw_nav raw)\<lparr>nav_eph := (nav_eph (raw_nav raw))
                   (eph_sat (bd2ephemb_eph env raw) - 1 := bd2ephemb_eph env raw)\<rparr>"
  using assms by (simp add: decode_bd2ephemb_def Let_def put_eph_def)


lemma gps_eph_eval:
  "eph_sat (gpsephemb_eph env_sample raw_gps_eph) = 5"
  "eph_iode (gpsephemb_eph env_sample raw_gps_eph) = 0"
  "sint (U4 (raw_buff raw_gps_eph) (28 + 20)) = 0"
  "eph_toe (gpsephemb_eph env_sample raw_gps_eph) = \<lparr>time = 1553990400, sec = 0\<rparr>"
  by (simp_all add: gpsephemb_eph_def Let_def env_sample_def U2_def U4_def U8_def R8_def
      raw_gps_eph_def raw_prev_def double_sample_def ieee_value_def handover_week_def
      week2time_def timediff_sample_def c_trunc_def)

lemma glo_eph_eval:
  "geph_sat (gloephemerisb_geph env_sample raw_glo_ephem) = 33"
  "uint (U2 (raw_buff raw_glo_ephem) 28) - 37 - 1 = 0"
  "geph_toe (gloephemerisb_geph env_sample raw_glo_ephem) = \<lparr>time = 315964800, sec = 0\<rparr>"
  by (simp_all add: gloephemerisb_geph_def Let_def env_sample_def U2_def U4_def
      raw_glo_ephem_def raw_prev_def week2time_def c_trunc_def)

lemma gal_eph_eval:
  "eph_sat (galephemerisb_eph env_sample raw_gal_eph) = 62"
  by (simp_all add: galephemerisb_eph_def Let_def env_sample_def U4_def
      raw_gal_eph_def raw_prev_def split: prod.splits)

lemma bds_eph_eval:
  "eph_sat (bd2ephemb_eph env_sample raw_bds_eph) = 103"
  "eph_toe (bd2ephemb_eph env_sample raw_bds_eph) = \<lparr>time = 1136073614, sec = 0\<rparr>"
  by (simp_all add: bd2ephemb_eph_def Let_def env_sample_def U4_def
      raw_bds_eph_def raw_prev_def week2time_def c_trunc_def)


lemma decode_gpsephemb_frame:
  "raw_buff (snd (decode_gpsephemb env raw)) = raw_buff raw"
  "raw_time (snd (decode_gpsephemb env raw)) = raw_time raw"
  "raw_len (snd (decode_gpsephemb env raw)) = raw_len raw"
  "raw_opt (snd (decode_gpsephemb env raw)) = raw_opt raw"
  by (simp_all add: decode_gpsephemb_def Let_def put_eph_def)

lemma gpsephemb_eph_cong:
  "raw_buff r = raw_buff r' \<Longrightarrow> raw_time r = raw_time r' \<Longrightarrow>
   gpsephemb_eph env r = gpsephemb_eph env r'"
  by (simp add: gpsephemb_eph_def)

lemma timediff_env_sample:
  "timediff env_sample t1 t2 = of_int (time t1 - time t2) + sec t1 - sec t2"
  by (simp add: env_sample_def timediff_sample_def)

lemma timediff_sample_same: "timediff env_sample t t = 0"
  by (simp add: timediff_env_sample)

lemma old_eph_eval:
  "eph_toe (nav_eph (raw_nav raw_gps_eph) 4) = gtime0"
  "geph_toe (nav_geph (raw_nav raw_glo_ephem) 0) = gtime0"
  "eph_toe (nav_eph (raw_nav raw_bds_eph) 102) = gtime0"
  "strstr (raw_opt raw_gal_eph) ''-EPHALL''"
  "\<not> strstr (raw_opt raw_gps_eph) ''-EPHALL''"
  "28 + 224 \<le> raw_len raw_gps_eph" "28 + 144 \<le> raw_len raw_glo_ephem"
  "28 + 220 \<le> raw_len raw_gal_eph" "28 + 232 \<le> raw_len raw_bds_eph"
  by (simp_all add: raw_gps_eph_def raw_glo_ephem_def raw_bds_eph_def raw_gal_eph_def
      raw_prev_def raw0_def eph0_def geph0_def)

text \<open>
  C5. For an ephemeris frame that passes the checks of its decoder (frame length,
  satellite number, and for GPS the two IODE fields being equal): if the options do not
  contain \<open>-EPHALL\<close> and the stored ephemeris of that satellite agrees with the new one on
  the key of the constellation (GPS and BeiDou: time of ephemeris with time difference 0,
  IODE/AODE, IODC/AODC; GLONASS: time of ephemeris closer than 1 s and the same health;
  Galileo: IODNav and data-source code), the decoder returns 0 and the navigation data are
  unchanged; in every other case, so whenever \<open>-EPHALL\<close> is present, it returns 2 and the
  entry of the satellite is the new ephemeris.
\<close>

theorem ephemeris_dedup:
  "(28 + 224 \<le> raw_len raw \<and>
      eph_sat (gpsephemb_eph env raw) \<noteq> 0 \<and>
      eph_iode (gpsephemb_eph env raw) = sint (U4 (raw_buff raw) (28 + 20)) \<longrightarrow>
       (if \<not> strstr (raw_opt raw) ''-EPHALL'' \<and>
                timediff env (eph_toe (nav_eph (raw_nav raw) (eph_sat (gpsephemb_eph env raw) - 1)))
                  (eph_toe (gpsephemb_eph env raw)) = 0 \<and>
                eph_iode (nav_eph (raw_nav raw) (eph_sat (gpsephemb_eph env raw) - 1))
                  = eph_iode (gpsephemb_eph env raw) \<and>
                eph_iodc (nav_eph (raw_nav raw) (eph_sat (gpsephemb_eph env raw) - 1))
                  = eph_iodc (gpsephemb_eph env raw)
             then fst (decode_gpsephemb env raw) = 0 \<and>
                  raw_nav (snd (decode_gpsephemb env raw)) = raw_nav raw
             else fst (decode_gpsephemb env raw) = 2 \<and>
                  raw_nav (snd (decode_gpsephemb env raw)) =
                    (raw_nav raw)\<lparr>nav_eph := (nav_eph (raw_nav raw))
                       (eph_sat (gpsephemb_eph env raw) - 1 := gpsephemb_eph env raw)\<rparr>))
   \<and> (28 + 144 \<le> raw_len raw \<and>
      geph_sat (gloephemerisb_geph env raw) \<noteq> 0 \<longrightarrow>
       (if \<not> strstr (raw_opt raw) ''-EPHALL'' \<and>
                \<bar>timediff env (geph_toe (gloephemerisb_geph env raw))
                   (geph_toe (nav_geph (raw_nav raw) (uint (U2 (raw_buff raw) 28) - 37 - 1)))\<bar> < 1 \<and>
                geph_svh (gloephemerisb_geph env raw)
                  = geph_svh (nav_geph (raw_nav raw) (uint (U2 (raw_buff raw) 28) - 37 - 1))
             then fst (decode_gloephemerisb env raw) = 0 \<and>
                  raw_nav (snd (decode_gloephemerisb env raw)) = raw_nav raw
             else fst (decode_gloephemerisb env raw) = 2 \<and>
                  raw_nav (snd (decode_gloephemerisb env raw)) =
                    (raw_nav raw)\<lparr>nav_geph := (nav_geph (raw_nav raw))
                       (uint (U2 (raw_buff raw) 28) - 37 - 1 := gloephemerisb_geph env raw)\<rparr>))
   \<and> (28 + 220 \<le> raw_len raw \<and>
      eph_sat (galephemerisb_eph env raw) \<noteq> 0 \<longrightarrow>
       (if \<not> strstr (raw_opt raw) ''-EPHALL'' \<and>
                eph_iode (nav_eph (raw_nav raw) (eph_sat (galephemerisb_eph env raw) - 1))
                  = eph_iode (galephemerisb_eph env raw) \<and>
                eph_code (nav_eph (raw_nav raw) (eph_sat (galephemerisb_eph env raw) - 1))
                  = eph_code (galephemerisb_eph env raw)
             then fst (decode_galephemerisb env raw) = 0 \<and>
                  raw_nav (snd (decode_galephemerisb env raw)) = raw_nav raw
             else fst (decode_galephemerisb env raw) = 2 \<and>
                  raw_nav (snd (decode_galephemerisb env raw)) =
                    (raw_nav raw)\<lparr>nav_eph := (nav_eph (raw_nav raw))
                       (eph_sat (galephemerisb_eph env raw) - 1 := galephemerisb_eph env raw)\<rparr>))
   \<and> (28 + 232 \<le> raw_len raw \<and>
      eph_sat (bd2ephemb_eph env raw) \<noteq> 0 \<longrightarrow>
       (if \<not> strstr (raw_opt raw) ''-EPHALL'' \<and>
                timediff env (eph_toe (nav_eph (raw_nav raw) (eph_sat (bd2ephemb_eph env raw) - 1)))
                  (eph_toe (bd2ephemb_eph env raw)) = 0 \<and>
                eph_iode (nav_eph (raw_nav raw) (eph_sat (bd2ephemb_eph env raw) - 1))
                  = eph_iode (bd2ephemb_eph env raw) \<and>
                eph_iodc (nav_eph (raw_nav raw) (eph_sat (bd2ephemb_eph env raw) - 1))
                  = eph_iodc (bd2ephemb_eph env raw)
             then fst (decode_bd2ephemb env raw) = 0 \<and>
                  raw_nav (snd (decode_bd2ephemb env raw)) = raw_nav raw
             else fst (decode_bd2ephemb env raw) = 2 \<and>
                  raw_nav (snd (decode_bd2ephemb env raw)) =
                    (raw_nav raw)\<lparr>nav_eph := (nav_eph (raw_nav raw))
                       (eph_sat (bd2ephemb_eph env raw) - 1 := bd2ephemb_eph env raw)\<rparr>))"
  using decode_gpsephemb_cases [of raw env] decode_gloephemerisb_cases [of raw env]
    decode_galephemerisb_cases [of raw env] decode_bd2ephemb_cases [of raw env]
  by blast

theorem ephemeris_dedup_witness:
  "28 + 224 \<le> raw_len raw_gps_eph
   \<and> eph_sat (gpsephemb_eph env_sample raw_gps_eph) = 5
   \<and> eph_iode (gpsephemb_eph env_sample raw_gps_eph) = sint (U4 (raw_buff raw_gps_eph) (28 + 20))
   \<and> fst (decode_gpsephemb env_sample raw_gps_eph) = 2
   \<and> nav_eph (raw_nav (snd (decode_gpsephemb env_sample raw_gps_eph))) 4
        = gpsephemb_eph env_sample raw_gps_eph
   \<and> fst (decode_gpsephemb env_sample (snd (decode_gpsephemb env_sample raw_gps_eph))) = 0
   \<and> 28 + 144 \<le> raw_len raw_glo_ephem
   \<and> geph_sat (gloephemerisb_geph env_sample raw_glo_ephem) = 33
   \<and> fst (decode_gloephemerisb env_sample raw_glo_ephem) = 2
   \<and> 28 + 220 \<le> raw_len raw_gal_eph
   \<and> eph_sat (galephemerisb_eph env_sample raw_gal_eph) = 62
   \<and> strstr (raw_opt raw_gal_eph) ''-EPHALL''
   \<and> fst (decode_galephemerisb env_sample raw_gal_eph) = 2
   \<and> 28 + 232 \<le> raw_len raw_bds_eph
   \<and> eph_sat (bd2ephemb_eph env_sample raw_bds_eph) = 103
   \<and> fst (decode_bd2ephemb env_sample raw_bds_eph) = 2"
proof -
  let ?e = "gpsephemb_eph env_sample raw_gps_eph"
  let ?r = "snd (decode_gpsephemb env_sample raw_gps_eph)"
  have v: "28 + 224 \<le> raw_len raw_gps_eph \<and> eph_sat ?e \<noteq> 0 \<and>
           eph_iode ?e = sint (U4 (raw_buff raw_gps_eph) (28 + 20))"
    by (simp only: gps_eph_eval old_eph_eval) simp
  have nk: "timediff env_sample (eph_toe (nav_eph (raw_nav raw_gps_eph) (eph_sat ?e - 1)))
              (eph_toe ?e) \<noteq> 0"
    by (simp add: gps_eph_eval old_eph_eval gtime0_def timediff_env_sample)
  have g1: "fst (decode_gpsephemb env_sample raw_gps_eph) = 2 \<and>
            raw_nav ?r = (raw_nav raw_gps_eph)\<lparr>nav_eph := (nav_eph (raw_nav raw_gps_eph))
                   (eph_sat ?e - 1 := ?e)\<rparr>"
    using ephemeris_dedup [of raw_gps_eph env_sample, THEN conjunct1, rule_format, OF v] nk
    by simp
  have e2: "gpsephemb_eph env_sample ?r = ?e"
    by (rule gpsephemb_eph_cong) (simp_all add: decode_gpsephemb_frame)
  have v2: "28 + 224 \<le> raw_len ?r \<and> eph_sat (gpsephemb_eph env_sample ?r) \<noteq> 0 \<and>
           eph_iode (gpsephemb_eph env_sample ?r) = sint (U4 (raw_buff ?r) (28 + 20))"
    using v by (simp only: e2 decode_gpsephemb_frame) simp
  have g2: "fst (decode_gpsephemb env_sample ?r) = 0"
    using ephemeris_dedup [of ?r env_sample, THEN conjunct1, rule_format, OF v2]
    by (simp add: e2 decode_gpsephemb_frame old_eph_eval g1 gps_eph_eval timediff_sample_same)
  have vg: "28 + 144 \<le> raw_len raw_glo_ephem \<and>
            geph_sat (gloephemerisb_geph env_sample raw_glo_ephem) \<noteq> 0"
    by (simp only: glo_eph_eval old_eph_eval) simp
  have gl: "fst (decode_gloephemerisb env_sample raw_glo_ephem) = 2"
    using ephemeris_dedup [of raw_glo_ephem env_sample, THEN conjunct2, THEN conjunct1,
        rule_format, OF vg]
    by (simp add: glo_eph_eval old_eph_eval gtime0_def timediff_env_sample)
  have va: "28 + 220 \<le> raw_len raw_gal_eph \<and>
            eph_sat (galephemerisb_eph env_sample raw_gal_eph) \<noteq> 0"
    by (simp only: gal_eph_eval old_eph_eval) simp
  have ga: "fst (decode_galephemerisb env_sample raw_gal_eph) = 2"
    using ephemeris_dedup [of raw_gal_eph env_sample, THEN conjunct2, THEN conjunct2,
        THEN conjunct1, rule_format, OF va]
    by (simp add: old_eph_eval)
  have vb: "28 + 232 \<le> raw_len raw_bds_eph \<and>
            eph_sat (bd2ephemb_eph env_sample raw_bds_eph) \<noteq> 0"
    by (simp only: bds_eph_eval old_eph_eval) simp
  have bd: "fst (decode_bd2ephemb env_sample raw_bds_eph) = 2"
    using ephemeris_dedup [of raw_bds_eph env_sample, THEN conjunct2, THEN conjunct2,
        THEN conjunct2, rule_format, OF vb]
    by (simp add: bds_eph_eval old_eph_eval gtime0_def timediff_env_sample)
  show ?thesis
    using v g1 g2 vg gl va ga vb bd gps_eph_eval glo_eph_eval gal_eph_eval bds_eph_eval
      old_eph_eval
    by simp
qed

text \<open>
  The frames the statement above leaves out are rejected: each decoder returns \<open>-1\<close> and
  keeps the navigation data when the frame is too short, the satellite number is 0 or, for
  GPS, the two IODE fields differ.
\<close>

lemma ephemeris_rejected:
  "raw_len raw < 28 + 224 \<or> eph_sat (gpsephemb_eph env raw) = 0 \<or>
     eph_iode (gpsephemb_eph env raw) \<noteq> sint (U4 (raw_buff raw) (28 + 20)) \<Longrightarrow>
   fst (decode_gpsephemb env raw) = - 1 \<and> raw_nav (snd (decode_gpsephemb env raw)) = raw_nav raw"
  "raw_len raw < 28 + 144 \<or> geph_sat (gloephemerisb_geph env raw) = 0 \<Longrightarrow>
   fst (decode_gloephemerisb env raw) = - 1 \<and>
   raw_nav (snd (decode_gloephemerisb env raw)) = raw_nav raw"
  "raw_len raw < 28 + 220 \<or> eph_sat (galephemerisb_eph env raw) = 0 \<Longrightarrow>
   fst (decode_galephemerisb env raw) = - 1 \<and>
   raw_nav (snd (decode_galephemerisb env raw)) = raw_nav raw"
  "raw_len raw < 28 + 232 \<or> eph_sat (bd2ephemb_eph env raw) = 0 \<Longrightarrow>
   fst (decode_bd2ephemb env raw) = - 1 \<and> raw_nav (snd (decode_bd2ephemb env raw)) = raw_nav raw"
proof -
  have s: "geph_sat (gloephemerisb_geph env raw)
      = satno env SYS_GLO (uint (U2 (raw_buff raw) 28) - 37)"
    by (simp add: gloephemerisb_geph_def Let_def)
  show "raw_len raw < 28 + 224 \<or> eph_sat (gpsephemb_eph env raw) = 0 \<or>
     eph_iode (gpsephemb_eph env raw) \<noteq> sint (U4 (raw_buff raw) (28 + 20)) \<Longrightarrow>
   fst (decode_gpsephemb env raw) = - 1 \<and> raw_nav (snd (decode_gpsephemb env raw)) = raw_nav raw"
    by (auto simp: decode_gpsephemb_def Let_def)
  show "raw_len raw < 28 + 144 \<or> geph_sat (gloephemerisb_geph env raw) = 0 \<Longrightarrow>
   fst (decode_gloephemerisb env raw) = - 1 \<and>
   raw_nav (snd (decode_gloephemerisb env raw)) = raw_nav raw"
    unfolding s by (auto simp: decode_gloephemerisb_def Let_def)
  show "raw_len raw < 28 + 220 \<or> eph_sat (galephemerisb_eph env raw) = 0 \<Longrightarrow>
   fst (decode_galephemerisb env raw) = - 1 \<and>
   raw_nav (snd (decode_galephemerisb env raw)) = raw_nav raw"
    by (auto simp: decode_galephemerisb_def Let_def)
  show "raw_len raw < 28 + 232 \<or> eph_sat (bd2ephemb_eph env raw) = 0 \<Longrightarrow>
   fst (decode_bd2ephemb env raw) = - 1 \<and> raw_nav (snd (decode_bd2ephemb env raw)) = raw_nav raw"
    by (auto simp: decode_bd2ephemb_def Let_def)
qed

subsection \<open>Sync search of the file input\<close>

lemma sync_at_Cons:
  "sync_at (fst (sync_unicore buff d)) rest k = sync_at buff (d # rest) (Suc k)"
  by (simp add: sync_at_def sync_unicore_def Let_def)

lemma sync_unicore_ok: "snd (sync_unicore buff d) = sync_at buff (d # rest) 0"
  by (simp add: sync_at_def sync_unicore_def Let_def)

lemma sync_search_giveup:
  "i \<le> 4096 \<Longrightarrow> 4097 - i \<le> length fp \<Longrightarrow> (\<forall>k < 4097 - i. \<not> sync_at buff fp k) \<Longrightarrow>
   sync_search buff fp i
     = (Sync_Giveup, shifted buff (take (4097 - i) fp), drop (4097 - i) fp)"
proof (induction fp arbitrary: buff i)
  case Nil
  then show ?case by simp
next
  case (Cons d rest)
  obtain b ok where s: "sync_unicore buff d = (b, ok)" by (cases "sync_unicore buff d")
  have nok: "\<not> ok"
    using Cons.prems(1,3) sync_unicore_ok [of buff d rest] s by auto
  have b: "b = fst (sync_unicore buff d)" using s by simp
  show ?case
  proof (cases "i = 4096")
    case True
    then show ?thesis using s nok by (simp add: shifted_def)
  next
    case False
    then have i: "i + 1 \<le> 4096" using Cons.prems(1) by simp
    have l: "4097 - (i + 1) \<le> length rest" using Cons.prems(2) by simp
    have n: "\<forall>k < 4097 - (i + 1). \<not> sync_at b rest k"
    proof (intro allI impI)
      fix k assume "k < 4097 - (i + 1)"
      then have "Suc k < 4097 - i" by simp
      then show "\<not> sync_at b rest k"
        using Cons.prems(3) unfolding b sync_at_Cons by blast
    qed
    have t: "4097 - i = Suc (4097 - (i + 1))" using i by simp
    have "sync_search buff (d # rest) i = sync_search b rest (i + 1)"
      using s nok i by simp
    also have "\<dots> = (Sync_Giveup, shifted b (take (4097 - (i + 1)) rest),
        drop (4097 - (i + 1)) rest)"
      by (rule Cons.IH [OF i l n])
    finally show ?thesis unfolding t by (simp add: shifted_def b)
  qed
qed

lemma sync_search_eof:
  "length fp + i < 4097 \<Longrightarrow> (\<forall>k < length fp. \<not> sync_at buff fp k) \<Longrightarrow>
   sync_search buff fp i = (Sync_EOF, shifted buff fp, [])"
proof (induction fp arbitrary: buff i)
  case Nil
  then show ?case by (simp add: shifted_def)
next
  case (Cons d rest)
  obtain b ok where s: "sync_unicore buff d = (b, ok)" by (cases "sync_unicore buff d")
  have nok: "\<not> ok"
    using Cons.prems(2) sync_unicore_ok [of buff d rest] s by auto
  have b: "b = fst (sync_unicore buff d)" using s by simp
  have i: "\<not> 4096 \<le> i" "length rest + (i + 1) < 4097" using Cons.prems(1) by simp_all
  have n: "\<forall>k < length rest. \<not> sync_at b rest k"
    using Cons.prems(2) unfolding b sync_at_Cons by auto
  have "sync_search buff (d # rest) i = sync_search b rest (i + 1)"
    using s nok i(1) by simp
  also have "\<dots> = (Sync_EOF, shifted b rest, [])" by (rule Cons.IH [OF i(2) n])
  finally show ?case by (simp add: shifted_def b)
qed

lemma sync_search_consumed:
  "sync_search buff fp i = (e, b, fp1) \<Longrightarrow> i \<le> 4096 \<Longrightarrow>
   length fp1 \<le> length fp \<and> length fp - length fp1 \<le> 4097 - i \<and> (e = Sync_EOF \<longrightarrow> fp1 = [])
   \<and> (e = Sync_Found \<longrightarrow> b 0 = 0xAA \<and> b 1 = 0x44 \<and> b 2 = 0x12)"
proof (induction fp arbitrary: buff i)
  case Nil
  then show ?case by auto
next
  case (Cons d rest)
  obtain b' ok where s: "sync_unicore buff d = (b', ok)" by (cases "sync_unicore buff d")
  show ?case
  proof (cases "ok \<or> 4096 \<le> i")
    case True
    then show ?thesis using Cons.prems s by (auto simp: sync_unicore_def Let_def split: if_splits)
  next
    case False
    then have r: "sync_search b' rest (i + 1) = (e, b, fp1)" and i: "i + 1 \<le> 4096"
      using Cons.prems s by simp_all
    from Cons.IH [OF r i] show ?thesis using i by auto
  qed
qed


lemma decoders_not_eof:
  "fst (decode_rangeb env raw) \<noteq> - 2"
  "fst (decode_rangecmpb env raw) \<noteq> - 2"
  "fst (decode_gpsephemb env raw) \<noteq> - 2"
  "fst (decode_gloephemerisb env raw) \<noteq> - 2"
  "fst (decode_galephemerisb env raw) \<noteq> - 2"
  "fst (decode_bd2ephemb env raw) \<noteq> - 2"
  by (simp_all add: decode_rangeb_def decode_rangecmpb_def decode_gpsephemb_def
      decode_gloephemerisb_def decode_galephemerisb_def decode_bd2ephemb_def Let_def)

lemma decode_unicore_not_eof: "fst (decode_unicore env raw) \<noteq> - 2"
  by (simp add: decode_unicore_def Let_def decoders_not_eof)

lemma fread_short: "fread buff off n fp = (False, b, fp1) \<Longrightarrow> fp1 = []"
  by (auto simp: fread_def split: if_splits)

lemma input_unicoref_eof:
  assumes "fst (input_unicoref env raw fp) = - 2"
  shows "snd (snd (input_unicoref env raw fp)) = []"
proof -
  obtain e b fp1 where s: "(if raw_nbyte raw = 0 then sync_search (raw_buff raw) fp 0
            else (Sync_Found, raw_buff raw, fp)) = (e, b, fp1)"
    by (metis prod_cases3)
  have eof: "e = Sync_EOF \<Longrightarrow> fp1 = []"
    using s sync_search_consumed [of "raw_buff raw" fp 0 e b fp1] by (auto split: if_splits)
  show ?thesis
  proof (cases e)
    case Sync_EOF
    then show ?thesis using s eof by (simp add: input_unicoref_def)
  next
    case Sync_Giveup
    then show ?thesis using s assms by (simp add: input_unicoref_def)
  next
    case Sync_Found
    obtain ok b2 fp2 where f: "fread b 3 7 fp1 = (ok, b2, fp2)" by (metis prod_cases3)
    show ?thesis
    proof (cases ok)
      case False
      then show ?thesis
        using s Sync_Found f fread_short [of b 3 7 fp1 b2 fp2] by (simp add: input_unicoref_def)
    next
      case True
      let ?raw1 = "raw\<lparr>raw_buff := b2, raw_nbyte := 10, raw_len := uint (U2 b2 8) + 28\<rparr>"
      obtain ok3 b3 fp3 where g: "fread b2 10 (nat (raw_len ?raw1 - 6)) fp2 = (ok3, b3, fp3)"
        by (metis prod_cases3)
      show ?thesis
      proof (cases "raw_len ?raw1 > MAXRAWLEN env - 4")
        case big: True
        then show ?thesis
          using s Sync_Found f True assms by (simp add: input_unicoref_def Let_def)
      next
        case small: False
        show ?thesis
        proof (cases ok3)
          case False
          then show ?thesis
            using s Sync_Found f True small g
              fread_short [of b2 10 "nat (raw_len ?raw1 - 6)" fp2 b3 fp3]
            by (simp add: input_unicoref_def Let_def)
        next
          case ok: True
          then show ?thesis
            using s Sync_Found f True small g assms
              decode_unicore_not_eof [of env "?raw1\<lparr>raw_buff := b3, raw_nbyte := 0\<rparr>"]
            by (simp add: input_unicoref_def Let_def split: prod.splits)
        qed
      qed
    qed
  qed
qed

lemma no_sync_zeros: "k < n \<Longrightarrow> \<not> sync_at (\<lambda>_. 0) (replicate n 0) k"
proof -
  assume k: "k < n"
  have "([0, 0] @ replicate n 0 :: u8 list) ! k = replicate (Suc (Suc n)) 0 ! k" by simp
  also have "\<dots> = 0" using k by (simp only: nth_replicate)
  finally show ?thesis by (simp add: sync_at_def Let_def)
qed

text \<open>
  C9. \<open>input_unicoref\<close> called with \<open>nbyte = 0\<close>: the sync search reads at most 4097 bytes.
  If the file has that many bytes left and none of them completes the sync sequence, the
  call returns 0 with \<open>nbyte\<close> still 0 and the file position 4097 bytes further, so that the
  next call goes on searching from there (the buffer keeps the last bytes read). If the
  file ends before, the call returns \<open>-2\<close>. The value \<open>-2\<close> is returned only with the file at
  its end.
\<close>

theorem input_unicoref_sync_bound:
  assumes "raw_nbyte raw = 0"
  shows
    "(4097 \<le> length fp \<and> (\<forall>k < 4097. \<not> sync_at (raw_buff raw) fp k) \<longrightarrow>
        input_unicoref env raw fp
          = (0, raw\<lparr>raw_buff := shifted (raw_buff raw) (take 4097 fp)\<rparr>, drop 4097 fp))
     \<and> (length fp < 4097 \<and> (\<forall>k < length fp. \<not> sync_at (raw_buff raw) fp k) \<longrightarrow>
        fst (input_unicoref env raw fp) = - 2)
     \<and> (fst (input_unicoref env raw fp) = - 2 \<longrightarrow> snd (snd (input_unicoref env raw fp)) = [])
     \<and> (\<forall>e b fp1. sync_search (raw_buff raw) fp 0 = (e, b, fp1) \<longrightarrow>
          length fp1 \<le> length fp \<and> length fp - length fp1 \<le> 4097)"
proof (intro conjI impI allI; (elim conjE)?)
  assume "4097 \<le> length fp" and "\<forall>k < 4097. \<not> sync_at (raw_buff raw) fp k"
  then have "sync_search (raw_buff raw) fp 0
      = (Sync_Giveup, shifted (raw_buff raw) (take 4097 fp), drop 4097 fp)"
    using sync_search_giveup [of 0 fp "raw_buff raw"] by simp
  then show "input_unicoref env raw fp
          = (0, raw\<lparr>raw_buff := shifted (raw_buff raw) (take 4097 fp)\<rparr>, drop 4097 fp)"
    using assms by (simp add: input_unicoref_def)
next
  assume "length fp < 4097" and "\<forall>k < length fp. \<not> sync_at (raw_buff raw) fp k"
  then have "sync_search (raw_buff raw) fp 0 = (Sync_EOF, shifted (raw_buff raw) fp, [])"
    using sync_search_eof [of fp 0 "raw_buff raw"] by simp
  then show "fst (input_unicoref env raw fp) = - 2"
    using assms by (simp add: input_unicoref_def)
next
  assume "fst (input_unicoref env raw fp) = - 2"
  then show "snd (snd (input_unicoref env raw fp)) = []" by (rule input_unicoref_eof)
next
  fix e b fp1 assume "sync_search (raw_buff raw) fp 0 = (e, b, fp1)"
  from sync_search_consumed [OF this]
  show "length fp1 \<le> length fp" and "length fp - length fp1 \<le> 4097" by simp_all
qed


theorem input_unicoref_sync_bound_witness:
  "raw_nbyte raw0 = 0
   \<and> 4097 \<le> length (replicate 4097 (0 :: u8))
   \<and> \<not> sync_at (raw_buff raw0) (replicate 4097 0) 0
   \<and> \<not> sync_at (raw_buff raw0) (replicate 4097 0) 4096
   \<and> input_unicoref env_sample raw0 (replicate 4097 0)
       = (0, raw0\<lparr>raw_buff := shifted (raw_buff raw0) (replicate 4097 0)\<rparr>, [])
   \<and> length (replicate 10 (0 :: u8)) < 4097
   \<and> fst (input_unicoref env_sample raw0 (replicate 10 0)) = - 2
   \<and> snd (snd (input_unicoref env_sample raw0 (replicate 10 0))) = []"
proof -
  have n: "raw_nbyte raw0 = 0" and b: "raw_buff raw0 = (\<lambda>_. 0)" by (simp_all add: raw0_def)
  have a: "\<forall>k < 4097. \<not> sync_at (raw_buff raw0) (replicate 4097 0) k"
    unfolding b using no_sync_zeros [of _ 4097] by blast
  have a': "\<forall>k < length (replicate 10 (0 :: u8)). \<not> sync_at (raw_buff raw0) (replicate 10 0) k"
    unfolding b using no_sync_zeros [of _ 10] by simp
  note th = input_unicoref_sync_bound [OF n, of _ env_sample]
  have 1: "input_unicoref env_sample raw0 (replicate 4097 0)
       = (0, raw0\<lparr>raw_buff := shifted (raw_buff raw0) (replicate 4097 0)\<rparr>, [])"
    using th [of "replicate 4097 0", THEN conjunct1] a by simp
  have 2: "fst (input_unicoref env_sample raw0 (replicate 10 0)) = - 2"
    using th [of "replicate 10 0", THEN conjunct2, THEN conjunct1] a' by simp
  have 3: "snd (snd (input_unicoref env_sample raw0 (replicate 10 0))) = []"
    using th [of "replicate 10 0", THEN conjunct2, THEN conjunct2, THEN conjunct1] 2 by simp
  show ?thesis using n a 1 2 3 by simp
qed

end
